theory Spec2Isabelle
  imports Main "HOL-Library.Sublist" "HOL-Library.Multiset"
begin

section \<open>WPWatcher: the WPScan output parser (wpwatcher/parser.py)\<close>

text \<open>
  A shallow embedding of the parts of \<^verbatim>\<open>src/wpwatcher/parser.py\<close> that the
  specification's claims are about: the structured parser \<^verbatim>\<open>parse_json\<close> with its
  helpers, the transcript parser \<^verbatim>\<open>parse_cli\<close> with \<^verbatim>\<open>parse_cli_toogle\<close>, the
  false-positive filter and the three bucket methods of \<^verbatim>\<open>WPScanJsonParser\<close>, and the
  alert and warning methods of the finding classes \<^verbatim>\<open>Vulnerability\<close>, \<^verbatim>\<open>Finding\<close>,
  \<^verbatim>\<open>WPItemVersion\<close>, \<^verbatim>\<open>WPItem\<close>, \<^verbatim>\<open>Plugin\<close>, \<^verbatim>\<open>Theme\<close>,
  \<^verbatim>\<open>MainTheme\<close> and \<^verbatim>\<open>Timthumb\<close>.

  Conventions.
  \<^item> A Python \<^verbatim>\<open>str\<close> is a \<^typ>\<open>string\<close>, one \<^typ>\<open>char\<close> per code point; the model
    covers the strings whose code points are below 256. The one operation of the modelled
    code that leaves this range is \<^verbatim>\<open>str.title\<close> on a reference-type key with the
    micro sign 0xB5 or the letter 0xFF at the start of a word (their title-case forms are
    the code points 0x39C and 0x178); keys with one of these two characters at the start
    of a word are outside the model.
  \<^item> The interpreter is CPython up to version 3.11, where a list comprehension is a
    function of its own.
  \<^item> A raised exception is the \<open>Inl\<close> branch of a sum type; the first exception raised
    ends the computation, as in Python.
  \<^item> A method that may return \<^verbatim>\<open>None\<close> in place of a list returns a
    \<^typ>\<open>string list option\<close>.
  \<^item> Definitions come first, in the order strings, JSON values, \<^verbatim>\<open>parse_json\<close>,
    \<^verbatim>\<open>parse_cli\<close>, \<^verbatim>\<open>WPScanJsonParser\<close>, finding classes, inputs of the facts;
    the facts follow.
  \<^item> Each function is modelled as it is written. Two things keep the module as a whole
    from running and are outside the functions modelled: the docstring of
    \<^verbatim>\<open>User.get_alerts\<close> ends in four double quotes, which leaves an unterminated
    string behind it, and \<^verbatim>\<open>parse_results\<close> calls a module-level
    \<^verbatim>\<open>ignore_false_positives\<close> with four arguments that the module does not define.
\<close>

subsection \<open>Exceptions\<close>

datatype error =
    ValueError
  | TypeError
  | AttributeError
  | KeyError
  | IndexError
  | UnboundLocalError
  | NameError

type_synonym 'a result = "error + 'a"

definition bind_result :: "'a result \<Rightarrow> ('a \<Rightarrow> 'b result) \<Rightarrow> 'b result" where
  "bind_result r f = (case r of Inl e \<Rightarrow> Inl e | Inr v \<Rightarrow> f v)"

subsection \<open>Strings\<close>

text \<open>
  Python's \<^verbatim>\<open>sub in s\<close> on two strings holds when \<^verbatim>\<open>sub\<close> occurs in \<^verbatim>\<open>s\<close> as a
  contiguous block; the empty string occurs in every string.
\<close>

abbreviation str_in :: "string \<Rightarrow> string \<Rightarrow> bool" where
  "str_in sub s \<equiv> sublist sub s"

abbreviation nl :: string where
  "nl \<equiv> [CHR 0x0A]"

text \<open>\<^verbatim>\<open>sep.join(xs)\<close>.\<close>

fun join :: "string \<Rightarrow> string list \<Rightarrow> string" where
  "join sep [] = []"
| "join sep [x] = x"
| "join sep (x # y # ys) = x @ sep @ join sep (y # ys)"

text \<open>
  \<^verbatim>\<open>s.splitlines()\<close>: a line ends at a line feed, vertical tab, form feed, carriage return
  (a carriage return followed by a line feed counts once), the separators 0x1C to 0x1E and
  the next-line character 0x85. No empty line is reported after the last terminator.
\<close>

definition is_linebreak :: "char \<Rightarrow> bool" where
  "is_linebreak c \<longleftrightarrow>
     c \<in> {CHR 0x0A, CHR 0x0B, CHR 0x0C, CHR 0x0D, CHR 0x1C, CHR 0x1D, CHR 0x1E, CHR 0x85}"

fun splitlines_from :: "string \<Rightarrow> string \<Rightarrow> string list" where
  "splitlines_from cur [] = (if cur = [] then [] else [cur])"
| "splitlines_from cur (c # cs) =
     (if c = CHR 0x0D then
        (case cs of
           [] \<Rightarrow> [cur]
         | d # ds \<Rightarrow> if d = CHR 0x0A then cur # splitlines_from [] ds
                     else cur # splitlines_from [] cs)
      else if is_linebreak c then cur # splitlines_from [] cs
      else splitlines_from (cur @ [c]) cs)"

definition splitlines :: "string \<Rightarrow> string list" where
  "splitlines s = splitlines_from [] s"

text \<open>\<^verbatim>\<open>s.strip()\<close> removes the white space of Python's \<^verbatim>\<open>str.isspace\<close> at both ends.\<close>

definition is_space :: "char \<Rightarrow> bool" where
  "is_space c \<longleftrightarrow>
     c \<in> {CHR 0x09, CHR 0x0A, CHR 0x0B, CHR 0x0C, CHR 0x0D,
          CHR 0x1C, CHR 0x1D, CHR 0x1E, CHR 0x1F, CHR 0x20, CHR 0x85, CHR 0xA0}"

definition strip :: "string \<Rightarrow> string" where
  "strip s = rev (dropWhile is_space (rev (dropWhile is_space s)))"

text \<open>
  The substitution \<^verbatim>\<open>re.sub\<close> of \<^verbatim>\<open>parse_cli\<close>, whose pattern is the escape
  character 0x1B or an opening square bracket, one or two digits \<^verbatim>\<open>[0-9]\<close> and the
  letter m, replaced by the empty string: scanning from the left, every match is deleted
  and any other character is kept.
\<close>

definition is_digit :: "char \<Rightarrow> bool" where
  "is_digit c \<longleftrightarrow> c \<in> set ''0123456789''"

fun remove_colorization :: "string \<Rightarrow> string" where
  "remove_colorization [] = []"
| "remove_colorization (c # cs) =
     (if c = CHR 0x1B then remove_colorization cs
      else if c = CHR ''['' then
        (case cs of
           d # e # rest \<Rightarrow>
             if is_digit d \<and> e = CHR ''m'' then remove_colorization rest
             else if is_digit d \<and> is_digit e then
               (case rest of
                  f # rest' \<Rightarrow> if f = CHR ''m'' then remove_colorization rest'
                               else c # remove_colorization cs
                | [] \<Rightarrow> c # remove_colorization cs)
             else c # remove_colorization cs
         | _ \<Rightarrow> c # remove_colorization cs)
      else c # remove_colorization cs)"

text \<open>
  \<^verbatim>\<open>s.title()\<close>: every character that follows an uncased character (or starts the
  string) is replaced by its title-case form, every character that follows a cased one by
  its lower-case form. Below 256 the cased characters are the ASCII letters, the ordinal
  indicators 0xAA and 0xBA, the micro sign 0xB5 and the letters 0xC0 to 0xFF other than
  the signs 0xD7 and 0xF7. The title-case form of a small letter is the capital letter 32
  places before it, that of the sharp s 0xDF is the two letters \<^verbatim>\<open>Ss\<close>; the lower-case
  form of a capital letter is the small letter 32 places after it; every other character
  is its own form. The title-case forms of 0xB5 and 0xFF lie above 255: a string with one
  of them at the start of a word is outside the model, and \<open>title_case\<close> leaves the
  character as it is.
\<close>

definition is_cased :: "char \<Rightarrow> bool" where
  "is_cased c \<longleftrightarrow>
     (let n = (of_char c :: nat) in
      (65 \<le> n \<and> n \<le> 90) \<or> (97 \<le> n \<and> n \<le> 122) \<or> n = 170 \<or> n = 181 \<or> n = 186
      \<or> (192 \<le> n \<and> n \<le> 214) \<or> (216 \<le> n \<and> n \<le> 246) \<or> (248 \<le> n \<and> n \<le> 255))"

definition title_case :: "char \<Rightarrow> string" where
  "title_case c =
     (let n = (of_char c :: nat) in
      if (97 \<le> n \<and> n \<le> 122) \<or> (224 \<le> n \<and> n \<le> 246) \<or> (248 \<le> n \<and> n \<le> 254)
      then [char_of (n - 32)]
      else if n = 223 then ''Ss''
      else [c])"

definition lower_case :: "char \<Rightarrow> char" where
  "lower_case c =
     (let n = (of_char c :: nat) in
      if (65 \<le> n \<and> n \<le> 90) \<or> (192 \<le> n \<and> n \<le> 214) \<or> (216 \<le> n \<and> n \<le> 222)
      then char_of (n + 32)
      else c)"

fun title_from :: "bool \<Rightarrow> string \<Rightarrow> string" where
  "title_from previous_is_cased [] = []"
| "title_from previous_is_cased (c # cs) =
     (if previous_is_cased then [lower_case c] else title_case c)
     @ title_from (is_cased c) cs"

definition str_title :: "string \<Rightarrow> string" where
  "str_title s = title_from False s"

subsection \<open>JSON values\<close>

text \<open>
  The value \<^verbatim>\<open>json.loads\<close> returns. Numbers are the integers (a report's floating point
  numbers are outside the model). A dictionary is an association list in insertion order,
  its keys pairwise distinct.
\<close>

datatype json =
    JNull
  | JBool bool
  | JInt int
  | JStr string
  | JList "json list"
  | JDict "(string \<times> json) list"

text \<open>Truth value of a JSON value under \<^verbatim>\<open>if v:\<close> and \<^verbatim>\<open>not v\<close>.\<close>

fun truthy :: "json \<Rightarrow> bool" where
  "truthy JNull = False"
| "truthy (JBool b) = b"
| "truthy (JInt n) = (n \<noteq> 0)"
| "truthy (JStr s) = (s \<noteq> [])"
| "truthy (JList xs) = (xs \<noteq> [])"
| "truthy (JDict kvs) = (kvs \<noteq> [])"

text \<open>
  \<^verbatim>\<open>str(v)\<close>, which is what \<^verbatim>\<open>"%s" % v\<close> and \<^verbatim>\<open>"{}".format(v)\<close> insert: a string
  is inserted as it is, any other value by its \<^verbatim>\<open>repr\<close>.
\<close>

definition digit_char :: "nat \<Rightarrow> char" where
  "digit_char d = ''0123456789abcdef'' ! d"

fun str_nat :: "nat \<Rightarrow> string" where
  "str_nat n = (if n < 10 then [digit_char n] else str_nat (n div 10) @ [digit_char (n mod 10)])"

definition str_int :: "int \<Rightarrow> string" where
  "str_int i = (if i < 0 then ''-'' @ str_nat (nat (- i)) else str_nat (nat i))"

definition printable :: "char \<Rightarrow> bool" where
  "printable c \<longleftrightarrow>
     (let n = (of_char c :: nat) in
      (32 \<le> n \<and> n < 127) \<or> (161 \<le> n \<and> n \<noteq> 173))"

definition repr_char :: "char \<Rightarrow> char \<Rightarrow> string" where
  "repr_char quote c =
     (if c = quote \<or> c = CHR 0x5C then [CHR 0x5C, c]
      else if c = CHR 0x09 then [CHR 0x5C, CHR ''t'']
      else if c = CHR 0x0A then [CHR 0x5C, CHR ''n'']
      else if c = CHR 0x0D then [CHR 0x5C, CHR ''r'']
      else if printable c then [c]
      else [CHR 0x5C, CHR ''x'', digit_char (of_char c div 16), digit_char (of_char c mod 16)])"

definition repr_str :: "string \<Rightarrow> string" where
  "repr_str s =
     (let quote = (if CHR 0x27 \<in> set s \<and> CHR 0x22 \<notin> set s then CHR 0x22 else CHR 0x27)
      in [quote] @ concat (map (repr_char quote) s) @ [quote])"

fun repr :: "json \<Rightarrow> string" where
  "repr JNull = ''None''"
| "repr (JBool b) = (if b then ''True'' else ''False'')"
| "repr (JInt n) = str_int n"
| "repr (JStr s) = repr_str s"
| "repr (JList xs) = ''['' @ join '', '' (map repr xs) @ '']''"
| "repr (JDict kvs) =
     ''{'' @ join '', '' (map (\<lambda>kv. repr_str (fst kv) @ '': '' @ repr (snd kv)) kvs) @ ''}''"

definition str :: "json \<Rightarrow> string" where
  "str v = (case v of JStr s \<Rightarrow> s | _ \<Rightarrow> repr v)"

text \<open>
  \<^verbatim>\<open>k in v\<close> for a string \<^verbatim>\<open>k\<close>: key membership in a dictionary, element membership in
  a list, substring test in a string, \<^verbatim>\<open>TypeError\<close> on any other value.
\<close>

fun contains :: "string \<Rightarrow> json \<Rightarrow> bool result" where
  "contains k (JDict kvs) = Inr (k \<in> set (map fst kvs))"
| "contains k (JList xs) = Inr (JStr k \<in> set xs)"
| "contains k (JStr s) = Inr (str_in k s)"
| "contains k _ = Inl TypeError"

text \<open>\<^verbatim>\<open>v[k]\<close> for a string \<^verbatim>\<open>k\<close>.\<close>

fun getitem :: "json \<Rightarrow> string \<Rightarrow> json result" where
  "getitem (JDict kvs) k = (case map_of kvs k of None \<Rightarrow> Inl KeyError | Some v \<Rightarrow> Inr v)"
| "getitem _ k = Inl TypeError"

text \<open>\<^verbatim>\<open>v.get(k, dflt)\<close> for a string \<^verbatim>\<open>k\<close>: only a dictionary has the method.\<close>

fun get :: "json \<Rightarrow> string \<Rightarrow> json \<Rightarrow> json result" where
  "get (JDict kvs) k dflt = Inr (case map_of kvs k of None \<Rightarrow> dflt | Some v \<Rightarrow> v)"
| "get _ k dflt = Inl AttributeError"

text \<open>
  \<^verbatim>\<open>v.get(k)\<close> for a key that is itself a JSON value, as in
  \<^verbatim>\<open>data.get('plugins').get(slug)\<close>: lists and dictionaries are not hashable.
\<close>

fun get_by :: "json \<Rightarrow> json \<Rightarrow> json result" where
  "get_by (JDict kvs) (JStr k) = Inr (case map_of kvs k of None \<Rightarrow> JNull | Some v \<Rightarrow> v)"
| "get_by (JDict kvs) (JList xs) = Inl TypeError"
| "get_by (JDict kvs) (JDict xs) = Inl TypeError"
| "get_by (JDict kvs) _ = Inr JNull"
| "get_by _ _ = Inl AttributeError"

text \<open>The values \<^verbatim>\<open>for x in v\<close> runs through.\<close>

fun iterate :: "json \<Rightarrow> json list result" where
  "iterate (JDict kvs) = Inr (map (JStr \<circ> fst) kvs)"
| "iterate (JList xs) = Inr xs"
| "iterate (JStr s) = Inr (map (\<lambda>c. JStr [c]) s)"
| "iterate _ = Inl TypeError"

subsection \<open>The structured parser \<^verbatim>\<open>parse_json\<close>\<close>

text \<open>
  \<^verbatim>\<open>
  def parse_confidence(finding):
      fdata=""
      if "confidence" in finding:
              fdata += "\nConfidence: %s" % finding["confidence"]
      return fdata
  \<close>
\<close>

definition parse_confidence :: "json \<Rightarrow> string result" where
  "parse_confidence finding =
     bind_result (contains ''confidence'' finding) (\<lambda>present.
       if present
       then bind_result (getitem finding ''confidence'') (\<lambda>v.
              Inr (nl @ ''Confidence: '' @ str v))
       else Inr [])"

text \<open>
  \<^verbatim>\<open>
  def parse_warning_wordpress(finding):
      if not finding:
          return None
      if finding.get('status', None)=="insecure":
          fdata=""
          fdata+="Insecure WordPress version %s identified (released on %s)"%(finding['number'], finding['release_date'])
          fdata+=parse_confidence(finding)
      return fdata
  \<close>
  When the status is not \<^verbatim>\<open>"insecure"\<close> the local \<^verbatim>\<open>fdata\<close> was never assigned and
  the \<^verbatim>\<open>return\<close> raises \<^verbatim>\<open>UnboundLocalError\<close>.
\<close>

definition parse_warning_wordpress :: "json \<Rightarrow> string option result" where
  "parse_warning_wordpress finding =
     (if \<not> truthy finding then Inr None
      else
        bind_result (get finding ''status'' JNull) (\<lambda>status.
          if status = JStr ''insecure'' then
            bind_result (getitem finding ''number'') (\<lambda>number.
            bind_result (getitem finding ''release_date'') (\<lambda>release_date.
            bind_result (parse_confidence finding) (\<lambda>confidence.
              Inr (Some (''Insecure WordPress version '' @ str number
                         @ '' identified (released on '' @ str release_date @ '')''
                         @ confidence)))))
          else Inl UnboundLocalError))"

text \<open>
  \<^verbatim>\<open>
  def parse_warning_theme_or_plugin(finding):
      if not finding:
          return None
      fdata=""
      if 'slug' in finding:
          fdata+="%s" % finding['slug']
      issue_data=""
      if finding.get('outdated', None):
          issue_data+="\nThe version is out of date, the latest version is %s" % (finding["latest_version"])
      if finding.get('directory_listing', None):
          issue_data+="\nDirectory listing is enabled"
      if finding.get('error_log_url', None):
          issue_data+="\nAn error log file has been found: %s" % (finding["error_log_url"])
      if not issue_data:
          return None # Return if no issues
      else:
          fdata+=issue_data
      if "location" in finding:
          fdata += "\nLocation: %s" % finding["location"]
      fdata+=parse_confidence(finding)
      return(fdata)
  \<close>
\<close>

definition parse_warning_theme_or_plugin :: "json \<Rightarrow> string option result" where
  "parse_warning_theme_or_plugin finding =
     (if \<not> truthy finding then Inr None
      else
        bind_result (contains ''slug'' finding) (\<lambda>has_slug.
        bind_result (if has_slug
                     then bind_result (getitem finding ''slug'') (\<lambda>v. Inr (str v))
                     else Inr []) (\<lambda>fdata.
        bind_result (get finding ''outdated'' JNull) (\<lambda>outdated.
        bind_result (if truthy outdated
                     then bind_result (getitem finding ''latest_version'') (\<lambda>v.
                            Inr (nl @ ''The version is out of date, the latest version is '' @ str v))
                     else Inr []) (\<lambda>issue1.
        bind_result (get finding ''directory_listing'' JNull) (\<lambda>directory_listing.
        let issue2 = issue1 @ (if truthy directory_listing
                               then nl @ ''Directory listing is enabled'' else []) in
        bind_result (get finding ''error_log_url'' JNull) (\<lambda>error_log_url.
        bind_result (if truthy error_log_url
                     then bind_result (getitem finding ''error_log_url'') (\<lambda>v.
                            Inr (issue2 @ nl @ ''An error log file has been found: '' @ str v))
                     else Inr issue2) (\<lambda>issue_data.
        if issue_data = [] then Inr None
        else
          bind_result (contains ''location'' finding) (\<lambda>has_location.
          bind_result (if has_location
                       then bind_result (getitem finding ''location'') (\<lambda>v.
                              Inr (fdata @ issue_data @ nl @ ''Location: '' @ str v))
                       else Inr (fdata @ issue_data)) (\<lambda>fdata'.
          bind_result (parse_confidence finding) (\<lambda>confidence.
            Inr (Some (fdata' @ confidence)))))))))))))"

text \<open>
  \<^verbatim>\<open>
  def parse_json(data):
      infos, warnings, alerts=[],[],[]
      if not data or not 'target_url' in data or not data['target_url']:
          raise ValueError("No data in wpscan JSON output (None) or no 'target_url' field present ...")
      # infos.extend(parse_misc_infos(data))     (commented out in the source, like
      # warnings.extend(parse_misc_warnings(data))  the other calls that used to fill
      # alerts.extend(parse_misc_alerts(data))      infos and alerts)
      wp_warning = parse_warning_wordpress(data.get('version', None))
      if wp_warning:
          warnings.append(wp_warning)
      main_theme_warning = parse_warning_theme_or_plugin(data.get('main_theme', None))
      if main_theme_warning:
          warnings.append(main_theme_warning)
      for slug in data.get('plugins', {}):
          plugin_warning = parse_warning_theme_or_plugin(data.get('plugins').get(slug))
          if plugin_warning:
              if not data.get('plugins').get(slug).get('version', None):
                  plugin_warning+="\nThe version could not be determined, all known vulnerabilites are listed"
              warnings.append(plugin_warning)
      return (( infos, warnings, alerts ))
  \<close>
  \<open>append_if\<close> is \<^verbatim>\<open>if w: warnings.append(w)\<close>; \<open>parse_json_plugins\<close> is the loop
  over the plugin slugs.
\<close>

definition append_if :: "string option \<Rightarrow> string list \<Rightarrow> string list" where
  "append_if w warnings =
     (case w of None \<Rightarrow> warnings | Some s \<Rightarrow> if s \<noteq> [] then warnings @ [s] else warnings)"

fun parse_json_plugins :: "json \<Rightarrow> json list \<Rightarrow> string list \<Rightarrow> string list result" where
  "parse_json_plugins data [] warnings = Inr warnings"
| "parse_json_plugins data (slug # slugs) warnings =
     bind_result (get data ''plugins'' JNull) (\<lambda>plugins.
     bind_result (get_by plugins slug) (\<lambda>plugin.
     bind_result (parse_warning_theme_or_plugin plugin) (\<lambda>plugin_warning.
       case plugin_warning of
         None \<Rightarrow> parse_json_plugins data slugs warnings
       | Some w \<Rightarrow>
           if w = [] then parse_json_plugins data slugs warnings
           else
             bind_result (get plugin ''version'' JNull) (\<lambda>version.
               parse_json_plugins data slugs
                 (warnings @
                  [if \<not> truthy version
                   then w @ nl @ ''The version could not be determined, all known vulnerabilites are listed''
                   else w])))))"

definition parse_json :: "json \<Rightarrow> (string list \<times> string list \<times> string list) result" where
  "parse_json data =
     (if \<not> truthy data then Inl ValueError
      else
        bind_result (contains ''target_url'' data) (\<lambda>has_target.
        if \<not> has_target then Inl ValueError
        else
          bind_result (getitem data ''target_url'') (\<lambda>target_url.
          if \<not> truthy target_url then Inl ValueError
          else
            bind_result (get data ''version'' JNull) (\<lambda>version.
            bind_result (parse_warning_wordpress version) (\<lambda>wp_warning.
            bind_result (get data ''main_theme'' JNull) (\<lambda>main_theme.
            bind_result (parse_warning_theme_or_plugin main_theme) (\<lambda>main_theme_warning.
            bind_result (get data ''plugins'' (JDict [])) (\<lambda>plugins.
            bind_result (iterate plugins) (\<lambda>slugs.
            bind_result (parse_json_plugins data slugs
                           (append_if main_theme_warning (append_if wp_warning []))) (\<lambda>warnings.
              Inr ([], warnings, [])))))))))))"

text \<open>
  \<^verbatim>\<open>
  def parse_target(data):
      messages=[]
      messages.append("Target URL: {}\nIP: {}\nEffective URL: {}".format(
          data['target_url'],
          data["target_ip"] if 'target_ip' in data else '?',
          data["effective_url"]))
      return messages
  \<close>
  The function is reached only through \<^verbatim>\<open>parse_misc_infos\<close>, whose call in
  \<^verbatim>\<open>parse_json\<close> is commented out.
\<close>

definition parse_target :: "json \<Rightarrow> string list result" where
  "parse_target data =
     bind_result (getitem data ''target_url'') (\<lambda>target_url.
     bind_result (contains ''target_ip'' data) (\<lambda>has_ip.
     bind_result (if has_ip then getitem data ''target_ip'' else Inr (JStr ''?'')) (\<lambda>target_ip.
     bind_result (getitem data ''effective_url'') (\<lambda>effective_url.
       Inr [''Target URL: '' @ str target_url @ nl @ ''IP: '' @ str target_ip @ nl
            @ ''Effective URL: '' @ str effective_url]))))"

subsection \<open>The transcript parser \<^verbatim>\<open>parse_cli\<close>\<close>

text \<open>
  \<^verbatim>\<open>
  def parse_cli_toogle(line, warning_on, alert_on):
      if "33m[!]" in line: warning_on=True
      elif "31m[!]" in line: alert_on = True
      elif "[!]" in line and any([m in line for m in [
          "The version is out of date",
          "No WPVulnDB API Token given",
          "You can get a free API token"]]) :
          warning_on = True
      elif "[!]" in line :
          alert_on = True
      if 'Insecure' in line:
          warning_on = True
      if 'The version could not be determined' in line and alert_on:
          alert_on = False
          warning_on = True
      return ((warning_on, alert_on))
  \<close>
\<close>

definition parse_cli_toogle :: "string \<Rightarrow> bool \<Rightarrow> bool \<Rightarrow> bool \<times> bool" where
  "parse_cli_toogle line warning_on alert_on =
     (let (warning_on, alert_on) =
            (if str_in ''33m[!]'' line then (True, alert_on)
             else if str_in ''31m[!]'' line then (warning_on, True)
             else if str_in ''[!]'' line \<and>
                     list_ex (\<lambda>m. str_in m line)
                       [''The version is out of date'',
                        ''No WPVulnDB API Token given'',
                        ''You can get a free API token'']
                  then (True, alert_on)
             else if str_in ''[!]'' line then (warning_on, True)
             else (warning_on, alert_on));
          warning_on = (if str_in ''Insecure'' line then True else warning_on)
      in if str_in ''The version could not be determined'' line \<and> alert_on
         then (True, False)
         else (warning_on, alert_on))"

text \<open>
  The variables of \<^verbatim>\<open>parse_cli\<close> that live across the rounds of its loop over the lines.
\<close>

record cli_state =
  cli_messages :: "string list"
  cli_warnings :: "string list"
  cli_alerts :: "string list"
  cli_warning_on :: bool
  cli_alert_on :: bool
  cli_message_lines :: "string list"

text \<open>\<^verbatim>\<open>[m for m in ls if m not in ["","|"]]\<close>\<close>

definition kept_lines :: "string list \<Rightarrow> string list" where
  "kept_lines ls = filter (\<lambda>m. m \<notin> set ['''', ''|'']) ls"

text \<open>
  \<^verbatim>\<open>
  messages_separated=[]
  msg=[]
  for l in message_lines+["|"]:
      if l.strip() == "|":
          messages_separated.append('\n'.join([ m for m in msg if m not in ["","|"]] ))
          msg=[]
      msg.append(l)
  \<close>
\<close>

fun separate_messages :: "string list \<Rightarrow> string list \<Rightarrow> string list \<Rightarrow> string list" where
  "separate_messages [] msg messages_separated = messages_separated"
| "separate_messages (l # ls) msg messages_separated =
     (if strip l = ''|''
      then separate_messages ls [l] (messages_separated @ [join nl (kept_lines msg)])
      else separate_messages ls (msg @ [l]) messages_separated)"

text \<open>
  \<^verbatim>\<open>'| [!] Title' in m.splitlines()[0]\<close>: the empty message has no line, and indexing
  its list of lines raises \<^verbatim>\<open>IndexError\<close>.
\<close>

definition first_line_has_title :: "string \<Rightarrow> bool result" where
  "first_line_has_title m =
     (case splitlines m of
        [] \<Rightarrow> Inl IndexError
      | first # _ \<Rightarrow> Inr (str_in ''| [!] Title'' first))"

text \<open>A list comprehension \<^verbatim>\<open>[x for x in xs if p(x)]\<close> whose test may raise.\<close>

fun filter_result :: "('a \<Rightarrow> bool result) \<Rightarrow> 'a list \<Rightarrow> 'a list result" where
  "filter_result p [] = Inr []"
| "filter_result p (x # xs) =
     bind_result (p x) (\<lambda>keep.
     bind_result (filter_result p xs) (\<lambda>ys. Inr (if keep then x # ys else ys)))"

text \<open>
  The end of a message, reached on a blank line after a non-empty message:
  \<^verbatim>\<open>
  if (alert_on or warning_on) and any(s in current_message for s in ['vulnerabilities identified','vulnerability identified']) :
      (messages_separated as above)
      vulnerabilities = [ m for m in messages_separated if '| [!] Title' in m.splitlines()[0] ]
      if alert_on: alerts.extend(vulnerabilities)
      elif warning_on: warnings.extend(vulnerabilities)
      plugin_infos='\n'.join([ m for m in messages_separated if '| [!] Title' not in m.splitlines()[0] ])
      if len([v for v in vulnerabilities if not is_false_positive(v, false_positives)])>0:
          warnings.append(plugin_infos)
      else:
          messages.append("[False positive]\n"+plugin_infos)
  elif warning_on: warnings.append(current_message)
  else: messages.append(current_message)
  message_lines=[]
  current_message=""
  warning_on, alert_on = False, False
  \<close>
  The name \<^verbatim>\<open>is_false_positive\<close> in the last test is a module-level name. The module
  binds no such name (the only \<^verbatim>\<open>is_false_positive\<close> is the static method of
  \<^verbatim>\<open>WPScanJsonParser\<close>, and the module imports \<^verbatim>\<open>json\<close>, \<^verbatim>\<open>re\<close> and
  \<^verbatim>\<open>abc\<close> only), so evaluating the name raises \<^verbatim>\<open>NameError\<close>. The test of the
  comprehension is evaluated once for each element, so the exception is raised as soon as
  the block has one title sub-block.
\<close>

definition module_is_false_positive :: "string \<Rightarrow> string list \<Rightarrow> bool result" where
  "module_is_false_positive v false_positives = Inl NameError"

definition end_of_message ::
  "string list \<Rightarrow> cli_state \<Rightarrow> string \<Rightarrow> cli_state result" where
  "end_of_message false_positives st current_message =
     bind_result
       (if (cli_alert_on st \<or> cli_warning_on st) \<and>
           list_ex (\<lambda>s. str_in s current_message)
             [''vulnerabilities identified'', ''vulnerability identified'']
        then
          (let messages_separated = separate_messages (cli_message_lines st @ [''|'']) [] [] in
           bind_result (filter_result first_line_has_title messages_separated) (\<lambda>vulnerabilities.
           bind_result (filter_result (\<lambda>m. bind_result (first_line_has_title m) (\<lambda>b. Inr (\<not> b)))
                          messages_separated) (\<lambda>others.
             let st1 = (if cli_alert_on st
                        then st\<lparr>cli_alerts := cli_alerts st @ vulnerabilities\<rparr>
                        else if cli_warning_on st
                        then st\<lparr>cli_warnings := cli_warnings st @ vulnerabilities\<rparr>
                        else st);
                 plugin_infos = join nl others
             in bind_result
                  (filter_result
                     (\<lambda>v. bind_result (module_is_false_positive v false_positives)
                             (\<lambda>b. Inr (\<not> b)))
                     vulnerabilities) (\<lambda>not_ignored.
                  if 0 < length not_ignored
                  then Inr (st1\<lparr>cli_warnings := cli_warnings st1 @ [plugin_infos]\<rparr>)
                  else Inr (st1\<lparr>cli_messages :=
                                 cli_messages st1 @ [''[False positive]'' @ nl @ plugin_infos]\<rparr>)))))
        else if cli_warning_on st
        then Inr (st\<lparr>cli_warnings := cli_warnings st @ [current_message]\<rparr>)
        else Inr (st\<lparr>cli_messages := cli_messages st @ [current_message]\<rparr>))
       (\<lambda>st'. Inr (st'\<lparr>cli_message_lines := [], cli_warning_on := False, cli_alert_on := False\<rparr>))"

text \<open>
  One round of the loop:
  \<^verbatim>\<open>
  for line in wpscan_output.splitlines()+[""]:
      line=line.strip()
      warning_on, alert_on = parse_cli_toogle(line, warning_on, alert_on)
      line = re.sub(r'(...)','',line)
      message_lines.append(line)
      current_message='\n'.join([m for m in message_lines if m not in ["","|"]]).strip()
      if ( line.strip() not in [""] or current_message.strip() == "" ) :
          continue
      (end of the message, as above)
  \<close>
\<close>

definition parse_cli_line ::
  "string list \<Rightarrow> cli_state \<Rightarrow> string \<Rightarrow> cli_state result" where
  "parse_cli_line false_positives st raw_line =
     (let line = strip raw_line;
          (warning_on, alert_on) = parse_cli_toogle line (cli_warning_on st) (cli_alert_on st);
          line = remove_colorization line;
          st = st\<lparr>cli_warning_on := warning_on, cli_alert_on := alert_on,
                  cli_message_lines := cli_message_lines st @ [line]\<rparr>;
          current_message = strip (join nl (kept_lines (cli_message_lines st)))
      in if strip line \<noteq> [] \<or> strip current_message = [] then Inr st
         else end_of_message false_positives st current_message)"

fun parse_cli_lines ::
  "string list \<Rightarrow> string list \<Rightarrow> cli_state \<Rightarrow> cli_state result" where
  "parse_cli_lines false_positives [] st = Inr st"
| "parse_cli_lines false_positives (line # rest) st =
     bind_result (parse_cli_line false_positives st line)
       (parse_cli_lines false_positives rest)"

text \<open>
  \<^verbatim>\<open>
  def parse_cli(wpscan_output, false_positives):
      if "[+]" not in wpscan_output:
          raise ValueError("The file does not seem to be a WPScan CLI log.")
      ( messages, warnings, alerts ) = ([],[],[])
      warning_on, alert_on = False, False
      message_lines=[]
      current_message=""
      for line in wpscan_output.splitlines()+[""]:
          ...
      return (( messages, warnings, alerts ))
  \<close>
\<close>

definition parse_cli ::
  "string \<Rightarrow> string list \<Rightarrow> (string list \<times> string list \<times> string list) result" where
  "parse_cli wpscan_output false_positives =
     (if \<not> str_in ''[+]'' wpscan_output then Inl ValueError
      else
        bind_result
          (parse_cli_lines false_positives (splitlines wpscan_output @ [''''])
             \<lparr> cli_messages = [], cli_warnings = [], cli_alerts = [],
               cli_warning_on = False, cli_alert_on = False, cli_message_lines = [] \<rparr>)
          (\<lambda>st. Inr (cli_messages st, cli_warnings st, cli_alerts st)))"

subsection \<open>The false-positive filter of \<^verbatim>\<open>WPScanJsonParser\<close>\<close>

text \<open>
  \<^verbatim>\<open>
  @staticmethod
  def is_false_positive(string, false_positives_strings):
      for fp_string in false_positives_strings:
          if fp_string in string:
              return True
  \<close>
  The method returns \<^verbatim>\<open>True\<close> or falls off its end and returns \<^verbatim>\<open>None\<close>; every
  caller only tests the result, so it is modelled by its truth value.
\<close>

fun is_false_positive :: "string \<Rightarrow> string list \<Rightarrow> bool" where
  "is_false_positive s [] = False"
| "is_false_positive s (fp_string # rest) =
     (if str_in fp_string s then True else is_false_positive s rest)"

text \<open>
  \<^verbatim>\<open>
  @staticmethod
  def ignore_false_positives(messages, false_positives_strings):
      for alert in messages:
          if WPScanJsonParser.is_false_positive(alert, false_positives_strings):
              messages.remove(alert)
      return messages
  \<close>
  The \<^verbatim>\<open>for\<close> loop walks the list by an index that grows by one in each round and stops
  when the index reaches the current length; \<^verbatim>\<open>messages.remove(alert)\<close> deletes the first
  element equal to \<^verbatim>\<open>alert\<close> from the very list that is being walked.
  \<open>ignore_loop i\<close> is the loop with the iterator standing at index \<open>i\<close>.
\<close>

function ignore_loop :: "nat \<Rightarrow> string list \<Rightarrow> string list \<Rightarrow> string list" where
  "ignore_loop i messages fps =
     (if i < length messages then
        (let alert = messages ! i in
         if is_false_positive alert fps
         then ignore_loop (Suc i) (remove1 alert messages) fps
         else ignore_loop (Suc i) messages fps)
      else messages)"
  by pat_completeness auto
termination
  by (relation "measure (\<lambda>(i, messages, fps). length messages - i)")
     (auto simp: length_remove1)

declare ignore_loop.simps [simp del]

definition ignore_false_positives :: "string list \<Rightarrow> string list \<Rightarrow> string list" where
  "ignore_false_positives messages fps = ignore_loop 0 messages fps"

text \<open>
  The filter as the specification words it: the messages that are not false positives, in
  their order. It is only compared with the source's loop.
\<close>

definition spec_filter :: "string list \<Rightarrow> string list \<Rightarrow> string list" where
  "spec_filter messages fps = filter (\<lambda>m. \<not> is_false_positive m fps) messages"

subsection \<open>The class \<^verbatim>\<open>WPScanJsonParser\<close>\<close>

text \<open>
  A component is an object with the three methods of the abstract class \<^verbatim>\<open>Component\<close>.
  Every method of the module builds a new list at each call and reads only the object's
  attributes, so a component is represented by what its three methods return: an
  exception, \<^verbatim>\<open>None\<close> or a list of strings.
\<close>

record component =
  get_infos :: "string list option result"
  get_warnings :: "string list option result"
  get_alerts :: "string list option result"

text \<open>
  \<^verbatim>\<open>
  class WPScanJsonParser(Component):
      def __init__(self, data, false_positives_strings=None):
          Component.__init__(self, data)
          self.false_positives_strings=false_positives_strings if false_positives_strings else []
          self.components=[]
  \<close>
  The attribute \<^verbatim>\<open>data\<close> is read by none of the methods modelled here and is left out.
\<close>

record WPScanJsonParser =
  false_positives_strings :: "string list"
  components :: "component list"

definition WPScanJsonParser_init :: "string list option \<Rightarrow> WPScanJsonParser" where
  "WPScanJsonParser_init fps =
     \<lparr> false_positives_strings =
         (case fps of None \<Rightarrow> [] | Some l \<Rightarrow> if l \<noteq> [] then l else []),
       components = [] \<rparr>"

text \<open>
  Iterating over \<^verbatim>\<open>None\<close>, and adding \<^verbatim>\<open>None\<close> to a list or a list to
  \<^verbatim>\<open>None\<close>, raise \<^verbatim>\<open>TypeError\<close>.
\<close>

definition iter_list :: "string list option \<Rightarrow> string list result" where
  "iter_list v = (case v of None \<Rightarrow> Inl TypeError | Some xs \<Rightarrow> Inr xs)"

definition list_add :: "string list option \<Rightarrow> string list option \<Rightarrow> string list result" where
  "list_add a b = (case (a, b) of (Some xs, Some ys) \<Rightarrow> Inr (xs @ ys) | _ \<Rightarrow> Inl TypeError)"

text \<open>
  \<^verbatim>\<open>
  def get_infos(self):
      infos=[]
      for component in self.components:
          infos.extend(component.get_infos())
          for alert in component.get_alerts()+component.get_warnings():
              if self.is_false_positive(alert, self.false_positives_strings):
                  infos.append("[False positive]\n"+alert)
      return infos
  \<close>
  \<open>component_infos\<close> is what one round of the outer loop appends.
\<close>

definition false_positive_prefix :: "string \<Rightarrow> string" where
  "false_positive_prefix alert = ''[False positive]'' @ nl @ alert"

definition component_infos :: "string list \<Rightarrow> component \<Rightarrow> string list result" where
  "component_infos fps c =
     bind_result (get_infos c) (\<lambda>i.
     bind_result (iter_list i) (\<lambda>infos.
     bind_result (get_alerts c) (\<lambda>a.
     bind_result (get_warnings c) (\<lambda>w.
     bind_result (list_add a w) (\<lambda>both.
       Inr (infos @ map false_positive_prefix
                      (filter (\<lambda>alert. is_false_positive alert fps) both)))))))"

fun WPScanJsonParser_get_infos_loop ::
  "string list \<Rightarrow> component list \<Rightarrow> string list \<Rightarrow> string list result" where
  "WPScanJsonParser_get_infos_loop fps [] infos = Inr infos"
| "WPScanJsonParser_get_infos_loop fps (c # cs) infos =
     bind_result (component_infos fps c)
       (\<lambda>new. WPScanJsonParser_get_infos_loop fps cs (infos @ new))"

definition WPScanJsonParser_get_infos :: "WPScanJsonParser \<Rightarrow> string list result" where
  "WPScanJsonParser_get_infos self =
     WPScanJsonParser_get_infos_loop (false_positives_strings self) (components self) []"

text \<open>
  \<^verbatim>\<open>
  def get_warnings(self):
      warnings=[]
      for component in self.components:
          all_warnings=component.get_warnings()
          component_warnings=self.ignore_false_positives(all_warnings, self.false_positives_strings)
          # Automatically remove special warning if all vuln are ignored
          if len(component_warnings)==1 and 'The version could not be determined' in component_warnings[0]:
              component_warnings=[]
          warnings.extend(component_warnings)
      return warnings
  \<close>
\<close>

definition version_undetermined :: string where
  "version_undetermined = ''The version could not be determined''"

definition component_warnings :: "string list \<Rightarrow> component \<Rightarrow> string list result" where
  "component_warnings fps c =
     bind_result (get_warnings c) (\<lambda>w.
     bind_result (iter_list w) (\<lambda>all_warnings.
       let filtered = ignore_false_positives all_warnings fps in
       if length filtered = 1 \<and> str_in version_undetermined (filtered ! 0)
       then Inr []
       else Inr filtered))"

fun WPScanJsonParser_get_warnings_loop ::
  "string list \<Rightarrow> component list \<Rightarrow> string list \<Rightarrow> string list result" where
  "WPScanJsonParser_get_warnings_loop fps [] warnings = Inr warnings"
| "WPScanJsonParser_get_warnings_loop fps (c # cs) warnings =
     bind_result (component_warnings fps c)
       (\<lambda>new. WPScanJsonParser_get_warnings_loop fps cs (warnings @ new))"

definition WPScanJsonParser_get_warnings :: "WPScanJsonParser \<Rightarrow> string list result" where
  "WPScanJsonParser_get_warnings self =
     WPScanJsonParser_get_warnings_loop (false_positives_strings self) (components self) []"

text \<open>
  \<^verbatim>\<open>
  def get_alerts(self):
      alerts=[]
      for component in self.components:
          alerts.extend(self.ignore_false_positives(component.get_alerts(), self.false_positives_strings))
      return alerts
  \<close>
\<close>

definition component_alerts :: "string list \<Rightarrow> component \<Rightarrow> string list result" where
  "component_alerts fps c =
     bind_result (get_alerts c) (\<lambda>a.
     bind_result (iter_list a) (\<lambda>all_alerts.
       Inr (ignore_false_positives all_alerts fps)))"

fun WPScanJsonParser_get_alerts_loop ::
  "string list \<Rightarrow> component list \<Rightarrow> string list \<Rightarrow> string list result" where
  "WPScanJsonParser_get_alerts_loop fps [] alerts = Inr alerts"
| "WPScanJsonParser_get_alerts_loop fps (c # cs) alerts =
     bind_result (component_alerts fps c)
       (\<lambda>new. WPScanJsonParser_get_alerts_loop fps cs (alerts @ new))"

definition WPScanJsonParser_get_alerts :: "WPScanJsonParser \<Rightarrow> string list result" where
  "WPScanJsonParser_get_alerts self =
     WPScanJsonParser_get_alerts_loop (false_positives_strings self) (components self) []"

text \<open>
  The list a method returned, and the number of messages of a list of components before
  any filtering: both are used to state facts about counts, not by the program.
\<close>

definition returned :: "string list option result \<Rightarrow> string list" where
  "returned r = (case r of Inr (Some xs) \<Rightarrow> xs | _ \<Rightarrow> [])"

definition prefilter_total :: "component list \<Rightarrow> nat" where
  "prefilter_total cs =
     sum_list (map (\<lambda>c. length (returned (get_infos c)) + length (returned (get_warnings c))
                         + length (returned (get_alerts c))) cs)"

definition lone_version_warning :: "string list \<Rightarrow> bool" where
  "lone_version_warning ws \<longleftrightarrow> length ws = 1 \<and> str_in version_undetermined (ws ! 0)"

subsection \<open>The finding classes\<close>

text \<open>
  An object is the record of its attributes. The attributes have the types of the WPScan
  report schema: texts and flags that may be absent are options (\<^verbatim>\<open>None\<close> is
  \<open>None\<close>), the references of a vulnerability map a reference type to its list of links.

  Truth values: \<^verbatim>\<open>None\<close>, the empty string, the empty list and \<^verbatim>\<open>False\<close> are
  false. An instance of one of the module's classes is always true, since no class of the
  module defines \<^verbatim>\<open>__bool__\<close> or \<^verbatim>\<open>__len__\<close>.
\<close>

definition truthy_str :: "string option \<Rightarrow> bool" where
  "truthy_str v = (case v of None \<Rightarrow> False | Some s \<Rightarrow> s \<noteq> [])"

definition truthy_bool :: "bool option \<Rightarrow> bool" where
  "truthy_bool v = (case v of None \<Rightarrow> False | Some b \<Rightarrow> b)"

definition truthy_list :: "string list option \<Rightarrow> bool" where
  "truthy_list v = (case v of None \<Rightarrow> False | Some xs \<Rightarrow> xs \<noteq> [])"

definition object_truthy :: "'a \<Rightarrow> bool" where
  "object_truthy obj = True"

text \<open>\<^verbatim>\<open>"{}".format(v)\<close> for an optional text.\<close>

definition format_str :: "string option \<Rightarrow> string" where
  "format_str v = (case v of None \<Rightarrow> ''None'' | Some s \<Rightarrow> s)"

text \<open>
  \<^verbatim>\<open>
  class Component(ABC):
      def __init__(self, data):
          if not data:
              data={}
          self.data=data
  \<close>
  Every subclass other than \<^verbatim>\<open>WPScanJsonParser\<close> starts its initializer with
  \<^verbatim>\<open>super().__init__(self, data)\<close>. The bound method already receives the instance,
  so the base initializer gets three positional arguments for its two parameters and the
  call raises \<^verbatim>\<open>TypeError\<close> before the base initializer runs.
\<close>

definition Component_init :: "'d option \<Rightarrow> 'd option result" where
  "Component_init data = Inr data"

definition call_with_self_and_data :: "('d \<Rightarrow> 'o result) \<Rightarrow> 'd \<Rightarrow> 'o result" where
  "call_with_self_and_data init data = Inl TypeError"

fun map_result :: "('a \<Rightarrow> 'b result) \<Rightarrow> 'a list \<Rightarrow> 'b list result" where
  "map_result f [] = Inr []"
| "map_result f (x # xs) =
     bind_result (f x) (\<lambda>y. bind_result (map_result f xs) (\<lambda>ys. Inr (y # ys)))"

text \<open>
  \<^verbatim>\<open>
  class Vulnerability(Component):
      def __init__(self, data):
          super().__init__(self, data)
          self.title=data.get('title', None)
          self.cvss=data.get('cvss', None)
          self.fixed_in=data.get('fixed_in', None)
          self.references=data.get('references', None)
  \<close>
  The mapping a vulnerability is built from has the same four optional entries as the
  object has attributes, so one record type serves for both.
\<close>

record Vulnerability =
  title :: "string option"
  cvss :: "string option"
  fixed_in :: "string option"
  references :: "(string \<times> string list) list option"

definition Vulnerability_init :: "Vulnerability option \<Rightarrow> Vulnerability result" where
  "Vulnerability_init data =
     bind_result (call_with_self_and_data Component_init data) (\<lambda>_.
       case data of
         None \<Rightarrow> Inl AttributeError
       | Some d \<Rightarrow> Inr \<lparr> title = title d, cvss = cvss d, fixed_in = fixed_in d,
                         references = references d \<rparr>)"

text \<open>
  \<^verbatim>\<open>
  def get_alerts(self):
      """Return 1 alert. First line of alert string is the vulnerability title. Process CVE and WPVulnDB references to add links"""
      alert=self.title
      if self.cvss:
          alert+='\nCVSS: {}'.format(self.cvss)
      if self.fixed_in:
          alert+='\nFixed in: {}'.format(self.fixed_in)
      else:
          alert+='\nNot fixed yet'
      if self.references:
          alert+='\nReferences: '
          for ref in self.references:
              if ref == 'cve':
                  for cve in self.references[ref]:
                      alert+="\n- CVE: http://cve.mitre.org/cgi-bin/cvename.cgi?name=CVE-{}".format(cve)
              elif ref == 'wpvulndb':
                  for wpvulndb in self.references[ref]:
                      alert+="\n- WPVulnDB: https://wpvulndb.com/vulnerabilities/{}".format(wpvulndb)
              else:
                  for link in self.references[ref]:
                      alert+="\n- {ref}: {link}".format(ref=ref.title(), link=link)
      return([alert])
  \<close>
  Without a title \<^verbatim>\<open>alert\<close> is \<^verbatim>\<open>None\<close>, and the first \<^verbatim>\<open>+=\<close>, which one of
  the two branches on \<^verbatim>\<open>fixed_in\<close> always reaches, raises \<^verbatim>\<open>TypeError\<close>.
  \<open>reference_label\<close> is the text between the dash and the link, \<open>reference_lines\<close> the
  lines of one reference type.
\<close>

definition reference_label :: "string \<Rightarrow> string" where
  "reference_label ref =
     (if ref = ''cve'' then ''CVE: http://cve.mitre.org/cgi-bin/cvename.cgi?name=CVE-''
      else if ref = ''wpvulndb'' then ''WPVulnDB: https://wpvulndb.com/vulnerabilities/''
      else str_title ref @ '': '')"

definition reference_lines :: "string \<times> string list \<Rightarrow> string" where
  "reference_lines entry =
     (case entry of (ref, links) \<Rightarrow>
        concat (map (\<lambda>link. nl @ ''- '' @ reference_label ref @ link) links))"

definition Vulnerability_get_alerts :: "Vulnerability \<Rightarrow> string list result" where
  "Vulnerability_get_alerts self =
     (case title self of
        None \<Rightarrow> Inl TypeError
      | Some alert \<Rightarrow>
          Inr [alert
               @ (if truthy_str (cvss self) then nl @ ''CVSS: '' @ format_str (cvss self) else [])
               @ (if truthy_str (fixed_in self)
                  then nl @ ''Fixed in: '' @ format_str (fixed_in self)
                  else nl @ ''Not fixed yet'')
               @ (case references self of
                    None \<Rightarrow> []
                  | Some refs \<Rightarrow>
                      if refs \<noteq> []
                      then nl @ ''References: '' @ concat (map reference_lines refs)
                      else [])])"

definition Vulnerability_get_warnings :: "Vulnerability \<Rightarrow> string list" where
  "Vulnerability_get_warnings self = []"

definition Vulnerability_get_infos :: "Vulnerability \<Rightarrow> string list" where
  "Vulnerability_get_infos self = []"

text \<open>
  \<^verbatim>\<open>
  class Finding(Component):
      def __init__(self, data):
          super().__init__(self, data)
          self.found_by=data.get("found_by", None)
          self.confidence=data.get("confidence", None)
          self.interesting_entries=data.get("interesting_entries", None)
          self.confirmed_by=data.get("confirmed_by", None)
          self.vulnerabilities=[Vulnerability(vuln) for vuln in data.get("vulnerabilities", [])]

      def get_alerts(self):
          alerts=[]
          for v in self.vulnerabilities:
              alerts.extend(v.get_alerts())
          return alerts
  \<close>
  The records whose names end in \<open>_dict\<close> are the mappings the initializers read, with
  the entry for key \<^verbatim>\<open>k\<close> in field \<open>d_k\<close>; an initializer called with \<^verbatim>\<open>None\<close>
  raises \<^verbatim>\<open>AttributeError\<close> at its first \<^verbatim>\<open>data.get\<close>.
\<close>

record Finding =
  found_by :: "string option"
  confidence :: "int option"
  interesting_entries :: "string list option"
  confirmed_by :: "(string \<times> json) list option"
  vulnerabilities :: "Vulnerability list"

record Finding_dict =
  d_found_by :: "string option"
  d_confidence :: "int option"
  d_interesting_entries :: "string list option"
  d_confirmed_by :: "(string \<times> json) list option"
  d_vulnerabilities :: "Vulnerability list option"

definition Finding_init :: "'a Finding_dict_scheme option \<Rightarrow> Finding result" where
  "Finding_init data =
     bind_result (call_with_self_and_data Component_init data) (\<lambda>_.
       case data of
         None \<Rightarrow> Inl AttributeError
       | Some d \<Rightarrow>
           bind_result
             (map_result (\<lambda>vuln. Vulnerability_init (Some vuln))
                (case d_vulnerabilities d of None \<Rightarrow> [] | Some vs \<Rightarrow> vs)) (\<lambda>vulns.
             Inr \<lparr> found_by = d_found_by d, confidence = d_confidence d,
                   interesting_entries = d_interesting_entries d,
                   confirmed_by = d_confirmed_by d, vulnerabilities = vulns \<rparr>))"

fun extend_alerts :: "Vulnerability list \<Rightarrow> string list \<Rightarrow> string list result" where
  "extend_alerts [] alerts = Inr alerts"
| "extend_alerts (v # vs) alerts =
     bind_result (Vulnerability_get_alerts v) (\<lambda>new. extend_alerts vs (alerts @ new))"

definition Finding_get_alerts :: "'a Finding_scheme \<Rightarrow> string list result" where
  "Finding_get_alerts self = extend_alerts (vulnerabilities self) []"

text \<open>
  \<^verbatim>\<open>
  class WPItemVersion(Finding):
      def __init__(self, data):
          super().__init__(self, data)
          self.number=data.get('number', data)

      def get_alerts(self):
          return super().get_alerts()

      def get_warnings(self):
          return []
  \<close>
\<close>

record WPItemVersion_dict = Finding_dict +
  d_number :: "string option"

record WPItemVersion = Finding +
  number :: "string + WPItemVersion_dict"

definition WPItemVersion_init :: "WPItemVersion_dict option \<Rightarrow> WPItemVersion result" where
  "WPItemVersion_init data =
     bind_result (call_with_self_and_data Finding_init data) (\<lambda>finding.
       case data of
         None \<Rightarrow> Inl AttributeError
       | Some d \<Rightarrow>
           Inr (Finding.extend finding
                  (WPItemVersion.fields
                     (case d_number d of Some n \<Rightarrow> Inl n | None \<Rightarrow> Inr d))))"

definition WPItemVersion_get_alerts :: "WPItemVersion \<Rightarrow> string list result" where
  "WPItemVersion_get_alerts self = Finding_get_alerts self"

definition WPItemVersion_get_warnings :: "WPItemVersion \<Rightarrow> string list" where
  "WPItemVersion_get_warnings self = []"

text \<open>
  \<^verbatim>\<open>
  class WPItem(Finding):
      def __init__(self, data):
          super().__init__(self, data)
          self.slug=data.get('slug', None)
          self.location=data.get('location', None)
          self.latest_version=data.get('latest_version', None)
          self.last_updated=data.get('last_updated', None)
          self.outdated=data.get('outdated', None)
          self.readme_url=data.get('readme_url', None)
          self.directory_listing=data.get('directory_listing', None)
          self.error_log_url=data.get('error_log_url', None)
          self.version=WPItemVersion(data.get('version', None))
  \<close>
  The attribute \<^verbatim>\<open>version\<close> is bound to an instance of \<^verbatim>\<open>WPItemVersion\<close> whatever
  the mapping holds; no assignment ever binds it to \<^verbatim>\<open>None\<close>.
\<close>

record WPItem_dict = Finding_dict +
  d_slug :: "string option"
  d_location :: "string option"
  d_latest_version :: "string option"
  d_last_updated :: "string option"
  d_outdated :: "bool option"
  d_readme_url :: "string option"
  d_directory_listing :: "bool option"
  d_error_log_url :: "string option"
  d_version :: "WPItemVersion_dict option"

record WPItem = Finding +
  slug :: "string option"
  location :: "string option"
  latest_version :: "string option"
  last_updated :: "string option"
  outdated :: "bool option"
  readme_url :: "string option"
  directory_listing :: "bool option"
  error_log_url :: "string option"
  version :: WPItemVersion

definition WPItem_init :: "'a WPItem_dict_scheme option \<Rightarrow> WPItem result" where
  "WPItem_init data =
     bind_result (call_with_self_and_data Finding_init data) (\<lambda>finding.
       case data of
         None \<Rightarrow> Inl AttributeError
       | Some d \<Rightarrow>
           bind_result (WPItemVersion_init (d_version d)) (\<lambda>v.
             Inr (Finding.extend finding
                    (WPItem.fields (d_slug d) (d_location d) (d_latest_version d)
                       (d_last_updated d) (d_outdated d) (d_readme_url d)
                       (d_directory_listing d) (d_error_log_url d) v))))"

text \<open>
  \<^verbatim>\<open>
  def _get_warnings(self):
      """Return 0 or 1 warning. ..."""
      warning=self.slug
      issue_data=""
      if self.outdated:
          issue_data+="\nThe version is out of date, the latest version is {}".format(self.latest_version)
      if self.directory_listing:
          issue_data+="\nDirectory listing is enabled"
      if self.error_log_url:
          issue_data+="\nAn error log file has been found: {}".format(self.error_log_url)
      if not issue_data:
          return [] # Return if no issues
      else:
          warning+=issue_data
      if self.location:
          warning += "\nLocation: {}".format(self.location)
      return([warning])
  \<close>
\<close>

definition WPItem__get_warnings :: "'a WPItem_scheme \<Rightarrow> string list result" where
  "WPItem__get_warnings self =
     (let issue_data =
            (if truthy_bool (outdated self)
             then nl @ ''The version is out of date, the latest version is ''
                  @ format_str (latest_version self)
             else [])
          @ (if truthy_bool (directory_listing self)
             then nl @ ''Directory listing is enabled'' else [])
          @ (if truthy_str (error_log_url self)
             then nl @ ''An error log file has been found: '' @ format_str (error_log_url self)
             else [])
      in if issue_data = [] then Inr []
         else (case slug self of
                 None \<Rightarrow> Inl TypeError
               | Some warning \<Rightarrow>
                   Inr [warning @ issue_data
                        @ (if truthy_str (location self)
                           then nl @ ''Location: '' @ format_str (location self) else [])]))"

text \<open>
  \<^verbatim>\<open>
  def get_alerts(self):
      """Return list of know plugin or theme vulnerability. Empty list is returned if plugin version is unrecognized"""
      alerts=[]
      if self.version:
          alerts.extend(super().get_alerts())
          alerts.extend(self.version.get_alerts())
      return alerts
  \<close>
\<close>

definition WPItem_get_alerts :: "'a WPItem_scheme \<Rightarrow> string list result" where
  "WPItem_get_alerts self =
     (if object_truthy (version self)
      then bind_result (Finding_get_alerts self) (\<lambda>own.
           bind_result (WPItemVersion_get_alerts (version self)) (\<lambda>of_version.
             Inr (own @ of_version)))
      else Inr [])"

text \<open>
  \<^verbatim>\<open>
  def get_warnings(self):
      """Return plugin or theme warnings, if oudated plugin, directory listing, accessible error log and
      for all know vulnerabilities if plugin version could not be recognized.
      Adds a special warning saying the version is unrecognized if that's the case"""
      warnings=[]
      warnings.extend(self._get_warnings())
      if not self.version and super().get_alerts():
          warnings.append("""{}\nThe plugin or theme version could not be determined by WPScan, all known vulnerabilities are listed. 
              Add vulnerabilities titles to false positves strings to ignore these messages.""".format(self.slug))
          warnings.extend(super().get_alerts())
      return warnings
  \<close>
  The literal of the notice runs over two source lines: it holds a line feed and the twelve
  blanks of the second line's indentation. \<^verbatim>\<open>and\<close> does not evaluate its right operand
  when the left one is false.
\<close>

definition version_notice :: "string option \<Rightarrow> string" where
  "version_notice slug_value =
     format_str slug_value @ nl
     @ ''The plugin or theme version could not be determined by WPScan, all known vulnerabilities are listed. ''
     @ nl @ ''            ''
     @ ''Add vulnerabilities titles to false positves strings to ignore these messages.''"

definition WPItem_get_warnings :: "'a WPItem_scheme \<Rightarrow> string list result" where
  "WPItem_get_warnings self =
     bind_result (WPItem__get_warnings self) (\<lambda>warnings.
       if object_truthy (version self) then Inr warnings
       else
         bind_result (Finding_get_alerts self) (\<lambda>alerts.
           if alerts = [] then Inr warnings
           else Inr (warnings @ [version_notice (slug self)] @ alerts)))"

text \<open>
  \<^verbatim>\<open>
  class Plugin(WPItem):
      def get_warnings(self):
          """Return plugin warnings"""
          if super().get_warnings():
              return [ "Plugin Warning: {}".format (super().get_warnings()[i])
                  for i in range(len(super().get_warnings())) ]

      def get_alerts(self):
          """Return plugin vulnerabilities"""
          if super().get_alerts():
              return [ "Plugin Vulnerability: {}".format (super().get_alerts()[i])
                  for i in range(len(super().get_alerts())) ]
  \<close>
  A method whose \<^verbatim>\<open>if\<close> fails runs off its end and returns \<^verbatim>\<open>None\<close>.

  The list comprehension is a function of its own, whose first argument is the iterator
  over \<^verbatim>\<open>range(...)\<close>. The iterable \<^verbatim>\<open>range(len(super().get_warnings()))\<close> is
  evaluated in the method, where \<^verbatim>\<open>super()\<close> finds the instance; the element
  expression is evaluated inside the comprehension, where \<^verbatim>\<open>super()\<close> without
  arguments takes the iterator for the instance and raises \<^verbatim>\<open>TypeError\<close>. The element
  expression runs once for each index, so the method raises as soon as the list is not
  empty. \<open>super_in_comprehension\<close> is the value of \<^verbatim>\<open>super().get_warnings()\<close> and of
  \<^verbatim>\<open>super().get_alerts()\<close> at that place.
\<close>

definition super_in_comprehension :: "string list result" where
  "super_in_comprehension = Inl TypeError"

type_synonym Plugin = WPItem

definition Plugin_get_warnings :: "Plugin \<Rightarrow> string list option result" where
  "Plugin_get_warnings self =
     bind_result (WPItem_get_warnings self) (\<lambda>warnings.
       if warnings \<noteq> []
       then bind_result (WPItem_get_warnings self) (\<lambda>counted.
            bind_result
              (map_result
                 (\<lambda>i. bind_result super_in_comprehension (\<lambda>ws.
                        Inr (''Plugin Warning: '' @ ws ! i)))
                 [0..<length counted]) (\<lambda>prefixed.
              Inr (Some prefixed)))
       else Inr None)"

definition Plugin_get_alerts :: "Plugin \<Rightarrow> string list option result" where
  "Plugin_get_alerts self =
     bind_result (WPItem_get_alerts self) (\<lambda>alerts.
       if alerts \<noteq> []
       then bind_result (WPItem_get_alerts self) (\<lambda>counted.
            bind_result
              (map_result
                 (\<lambda>i. bind_result super_in_comprehension (\<lambda>vs.
                        Inr (''Plugin Vulnerability: '' @ vs ! i)))
                 [0..<length counted]) (\<lambda>prefixed.
              Inr (Some prefixed)))
       else Inr None)"

text \<open>
  \<^verbatim>\<open>
  class Theme(WPItem):
      def __init__(self, data):
          super().__init__(self, data)
          self.style_url=data.get('style_url', None)
          ...
          self.text_domain=data.get('text_domain', None)
          self.parents=[Theme(theme) for theme in data.get('parents', [])]

      def get_warnings(self):
          """Return theme warnings"""
          if super().get_warnings():
              return [ "Theme Warning: {}".format (super().get_warnings()[i])
                  for i in range(len(super().get_warnings())) ]

      def get_alerts(self):
          """Return theme vulnerabilities"""
          if super().get_alerts():
              return [ "Theme Vulnerability: {}".format (super().get_alerts()[i])
                  for i in range(len(super().get_alerts())) ]
  \<close>
  The comprehensions call \<^verbatim>\<open>super()\<close> in their element expression, as those of
  \<^verbatim>\<open>Plugin\<close> do.
\<close>

record Theme_attributes = WPItem +
  style_url :: "string option"
  style_name :: "string option"
  style_uri :: "string option"
  description :: "string option"
  author :: "string option"
  author_uri :: "string option"
  template :: "string option"
  license :: "string option"
  license_uri :: "string option"
  tags :: "string option"
  text_domain :: "string option"

datatype Theme = Theme (attributes: Theme_attributes) (parents: "Theme list")

definition Theme_get_warnings :: "Theme \<Rightarrow> string list option result" where
  "Theme_get_warnings self =
     bind_result (WPItem_get_warnings (attributes self)) (\<lambda>warnings.
       if warnings \<noteq> []
       then bind_result (WPItem_get_warnings (attributes self)) (\<lambda>counted.
            bind_result
              (map_result
                 (\<lambda>i. bind_result super_in_comprehension (\<lambda>ws.
                        Inr (''Theme Warning: '' @ ws ! i)))
                 [0..<length counted]) (\<lambda>prefixed.
              Inr (Some prefixed)))
       else Inr None)"

definition Theme_get_alerts :: "Theme \<Rightarrow> string list option result" where
  "Theme_get_alerts self =
     bind_result (WPItem_get_alerts (attributes self)) (\<lambda>alerts.
       if alerts \<noteq> []
       then bind_result (WPItem_get_alerts (attributes self)) (\<lambda>counted.
            bind_result
              (map_result
                 (\<lambda>i. bind_result super_in_comprehension (\<lambda>vs.
                        Inr (''Theme Vulnerability: '' @ vs ! i)))
                 [0..<length counted]) (\<lambda>prefixed.
              Inr (Some prefixed)))
       else Inr None)"

text \<open>
  \<^verbatim>\<open>
  class MainTheme(Theme):
      def get_warnings(self):
          """Return Main Theme warnings"""
          if super().get_warnings():
              return [ "Main Theme Warning: {}".format(warning) for warning in super().get_warnings() ]

      def get_alerts(self):
          """Return Main Theme vulnerabilities"""
          if super().get_alerts():
              return [ "Main Theme Vulnerability: {}".format(alert) for alert in super().get_alerts() ]
  \<close>
  Here \<^verbatim>\<open>super()\<close> is \<^verbatim>\<open>Theme\<close>. Both calls of \<^verbatim>\<open>super()\<close> are in the method
  itself, the second as the iterable of the comprehension, and the element expression has
  none; the same holds for \<^verbatim>\<open>Timthumb.get_alerts\<close> below.
\<close>

type_synonym MainTheme = Theme

definition MainTheme_get_warnings :: "MainTheme \<Rightarrow> string list option result" where
  "MainTheme_get_warnings self =
     bind_result (Theme_get_warnings self) (\<lambda>warnings.
       if truthy_list warnings
       then bind_result (iter_list warnings) (\<lambda>ws.
              Inr (Some (map (\<lambda>w. ''Main Theme Warning: '' @ w) ws)))
       else Inr None)"

definition MainTheme_get_alerts :: "MainTheme \<Rightarrow> string list option result" where
  "MainTheme_get_alerts self =
     bind_result (Theme_get_alerts self) (\<lambda>alerts.
       if truthy_list alerts
       then bind_result (iter_list alerts) (\<lambda>al.
              Inr (Some (map (\<lambda>a. ''Main Theme Vulnerability: '' @ a) al)))
       else Inr None)"

text \<open>
  \<^verbatim>\<open>
  class Timthumb(Finding):
      def __init__(self, data):
          super().__init__(self, data)
          self.url=None
          self.version=WPItemVersion(data.get('version', None))

      def get_warnings(self):
          """Return empty list"""
          return []

      def get_alerts(self):
          """Return timthumb vulnerabilities"""
          if super().get_alerts():
              return [ "Timthumb Vulnerability: {}".format(alert) for alert in super().get_alerts()+ self.version.get_alerts() ]
  \<close>
  The attribute \<^verbatim>\<open>version\<close> of a \<^verbatim>\<open>Timthumb\<close> is the field \<open>timthumb_version\<close>.
\<close>

record Timthumb = Finding +
  url :: "string option"
  timthumb_version :: WPItemVersion

definition Timthumb_get_warnings :: "Timthumb \<Rightarrow> string list option result" where
  "Timthumb_get_warnings self = Inr (Some [])"

definition Timthumb_get_alerts :: "Timthumb \<Rightarrow> string list option result" where
  "Timthumb_get_alerts self =
     bind_result (Finding_get_alerts self) (\<lambda>own.
       if own \<noteq> []
       then bind_result (WPItemVersion_get_alerts (timthumb_version self)) (\<lambda>of_version.
              Inr (Some (map (\<lambda>alert. ''Timthumb Vulnerability: '' @ alert) (own @ of_version))))
       else Inr None)"

subsection \<open>Transcripts used as inputs\<close>

text \<open>
  The marker \<^verbatim>\<open>[!]\<close> as WPScan prints it in the warning colour: escape, \<^verbatim>\<open>[33m\<close>,
  the marker, escape, \<^verbatim>\<open>[0m\<close>.
\<close>

definition warning_mark :: string where
  "warning_mark = [CHR 0x1B] @ ''[33m[!]'' @ [CHR 0x1B] @ ''[0m''"

text \<open>
  A transcript of two messages: a first message that carries the marker \<^verbatim>\<open>[+]\<close>
  which \<^verbatim>\<open>parse_cli\<close> requires, and the block
  \<^verbatim>\<open>
  [!] Title: X
  [!] 2 vulnerabilities identified:
  |
  | [!] Title: CVE-1
  |
  | [!] Title: CVE-2
  \<close>
  with every \<^verbatim>\<open>[!]\<close> in the warning colour.
\<close>

definition compound_transcript :: string where
  "compound_transcript =
     [CHR 0x1B] @ ''[32m[+]'' @ [CHR 0x1B] @ ''[0m URL: http://wp.test/'' @ nl
     @ nl
     @ warning_mark @ '' Title: X'' @ nl
     @ warning_mark @ '' 2 vulnerabilities identified:'' @ nl
     @ ''|'' @ nl
     @ ''| '' @ warning_mark @ '' Title: CVE-1'' @ nl
     @ ''|'' @ nl
     @ ''| '' @ warning_mark @ '' Title: CVE-2''"

text \<open>
  The same block where only the first line has its marker in the warning colour and the
  other markers are not coloured.
\<close>

definition uncoloured_transcript :: string where
  "uncoloured_transcript =
     ''[+] URL: http://wp.test/'' @ nl
     @ nl
     @ warning_mark @ '' Title: X'' @ nl
     @ ''[!] 2 vulnerabilities identified:'' @ nl
     @ ''|'' @ nl
     @ ''| [!] Title: CVE-1'' @ nl
     @ ''|'' @ nl
     @ ''| [!] Title: CVE-2''"

subsection \<open>Objects used as inputs\<close>

text \<open>
  The version object of an item whose version the scanner did not determine: no attribute
  is set, it has no vulnerability, and \<^verbatim>\<open>number\<close> is the (empty) mapping itself.
\<close>

definition undetermined_version :: WPItemVersion where
  "undetermined_version =
     \<lparr> found_by = None, confidence = None, interesting_entries = None, confirmed_by = None,
       vulnerabilities = [],
       number = Inr \<lparr> d_found_by = None, d_confidence = None, d_interesting_entries = None,
                      d_confirmed_by = None, d_vulnerabilities = None, d_number = None \<rparr> \<rparr>"

text \<open>A vulnerability listed for the slug \<^verbatim>\<open>akismet\<close>.\<close>

definition xss_vulnerability :: Vulnerability where
  "xss_vulnerability =
     \<lparr> title = Some ''akismet 1.0 - Stored XSS'', cvss = None, fixed_in = Some ''1.1'',
       references = None \<rparr>"

text \<open>
  A plugin finding with \<^verbatim>\<open>outdated: true\<close>, \<^verbatim>\<open>latest_version: "2.0"\<close>, one
  vulnerability at the level of the slug and no \<^verbatim>\<open>version\<close> entry: the mapping the
  scanner reports, and the object with the attributes the initializer of \<^verbatim>\<open>WPItem\<close>
  assigns from it.
\<close>

definition outdated_vulnerable_dict :: WPItem_dict where
  "outdated_vulnerable_dict =
     \<lparr> d_found_by = None, d_confidence = None, d_interesting_entries = None,
       d_confirmed_by = None, d_vulnerabilities = Some [xss_vulnerability],
       d_slug = Some ''akismet'', d_location = None, d_latest_version = Some ''2.0'',
       d_last_updated = None, d_outdated = Some True, d_readme_url = None,
       d_directory_listing = None, d_error_log_url = None, d_version = None \<rparr>"

definition outdated_vulnerable_item :: WPItem where
  "outdated_vulnerable_item =
     \<lparr> found_by = None, confidence = None, interesting_entries = None, confirmed_by = None,
       vulnerabilities = [xss_vulnerability],
       slug = Some ''akismet'', location = None, latest_version = Some ''2.0'',
       last_updated = None, outdated = Some True, readme_url = None,
       directory_listing = None, error_log_url = None,
       version = undetermined_version \<rparr>"

text \<open>
  An item, a theme and a timthumb with no issue and no vulnerability.
\<close>

definition quiet_item :: WPItem where
  "quiet_item =
     \<lparr> found_by = None, confidence = None, interesting_entries = None, confirmed_by = None,
       vulnerabilities = [],
       slug = Some ''akismet'', location = None, latest_version = None, last_updated = None,
       outdated = None, readme_url = None, directory_listing = None, error_log_url = None,
       version = undetermined_version \<rparr>"

definition quiet_theme :: Theme where
  "quiet_theme =
     Theme (WPItem.extend quiet_item
              (Theme_attributes.fields None None None None None None None None None None None)) []"

definition quiet_timthumb :: Timthumb where
  "quiet_timthumb =
     \<lparr> found_by = None, confidence = None, interesting_entries = None, confirmed_by = None,
       vulnerabilities = [], url = None, timthumb_version = undetermined_version \<rparr>"

section \<open>Facts\<close>

subsection \<open>Results and exceptions\<close>

lemma bind_result_Inr_iff:
  "bind_result r f = Inr y \<longleftrightarrow> (\<exists>v. r = Inr v \<and> f v = Inr y)"
  by (cases r) (simp_all add: bind_result_def)

lemma bind_result_Inr [simp]: "bind_result (Inr v) f = f v"
  by (simp add: bind_result_def)

lemma bind_result_Inl [simp]: "bind_result (Inl e) f = Inl e"
  by (simp add: bind_result_def)

lemma iter_list_Inr_iff: "iter_list v = Inr xs \<longleftrightarrow> v = Some xs"
  by (cases v) (simp_all add: iter_list_def)

lemma list_add_Inr_iff: "list_add a b = Inr zs \<longleftrightarrow> (\<exists>xs ys. a = Some xs \<and> b = Some ys \<and> zs = xs @ ys)"
  by (cases a; cases b) (auto simp: list_add_def)

subsection \<open>The false-positive filter\<close>

text \<open>
  A message is a false positive exactly when one of the rule strings occurs in it.
\<close>

lemma is_false_positive_iff:
  "is_false_positive s fps \<longleftrightarrow> (\<exists>fp \<in> set fps. str_in fp s)"
  by (induction fps) auto

text \<open>
  What the loop of \<^verbatim>\<open>ignore_false_positives\<close> does guarantee: the result is a
  subsequence of the input, so the surviving messages keep their relative order, and every
  message it removes is a false positive.
\<close>

lemma subseq_remove1: "subseq (remove1 x xs) xs"
  by (induction xs) auto

lemma subseq_mset_le: "subseq xs ys \<Longrightarrow> mset xs \<subseteq># mset ys"
  by (induction rule: list_emb.induct) (auto intro: subset_mset.order_trans)

lemma ignore_loop_subseq: "subseq (ignore_loop i messages fps) messages"
proof (induction i messages fps rule: ignore_loop.induct)
  case (1 i messages fps)
  show ?case
  proof (cases "i < length messages")
    case False
    then show ?thesis by (simp add: ignore_loop.simps)
  next
    case True
    show ?thesis
    proof (cases "is_false_positive (messages ! i) fps")
      case fp: True
      have "subseq (ignore_loop (Suc i) (remove1 (messages ! i) messages) fps)
              (remove1 (messages ! i) messages)"
        using "1.IH"(1) [OF True refl fp] .
      moreover have "subseq (remove1 (messages ! i) messages) messages"
        by (rule subseq_remove1)
      ultimately have "subseq (ignore_loop (Suc i) (remove1 (messages ! i) messages) fps) messages"
        by (rule subseq_order.trans)
      with True fp show ?thesis by (simp add: ignore_loop.simps [of i])
    next
      case nfp: False
      with True "1.IH"(2) [OF True refl nfp] show ?thesis
        by (simp add: ignore_loop.simps [of i])
    qed
  qed
qed

lemma ignore_loop_mset_le: "mset (ignore_loop i messages fps) \<subseteq># mset messages"
  using ignore_loop_subseq [of i messages fps] by (rule subseq_mset_le)

lemma ignore_loop_removed_fp:
  "m \<in># mset messages - mset (ignore_loop i messages fps) \<Longrightarrow> is_false_positive m fps"
proof (induction i messages fps rule: ignore_loop.induct)
  case (1 i messages fps)
  show ?case
  proof (cases "i < length messages")
    case False
    with "1.prems" show ?thesis by (simp add: ignore_loop.simps [of i])
  next
    case True
    let ?a = "messages ! i"
    show ?thesis
    proof (cases "is_false_positive ?a fps")
      case fp: True
      let ?r = "ignore_loop (Suc i) (remove1 ?a messages) fps"
      have res: "ignore_loop i messages fps = ?r"
        using True fp by (simp add: ignore_loop.simps [of i])
      have le: "mset ?r \<subseteq># mset (remove1 ?a messages)"
        by (rule ignore_loop_mset_le)
      have "?a \<in> set messages" using True by simp
      then have split: "mset messages = mset (remove1 ?a messages) + {#?a#}"
        by simp
      have "mset messages - mset ?r = (mset (remove1 ?a messages) - mset ?r) + {#?a#}"
        unfolding split by (rule subset_mset.diff_add_assoc2 [OF le])
      with "1.prems" res have "m \<in># mset (remove1 ?a messages) - mset ?r \<or> m = ?a"
        by auto
      then show ?thesis
      proof
        assume "m \<in># mset (remove1 ?a messages) - mset ?r"
        then show ?thesis using "1.IH"(1) [OF True refl fp] by simp
      next
        assume "m = ?a"
        with fp show ?thesis by simp
      qed
    next
      case nfp: False
      have "ignore_loop i messages fps = ignore_loop (Suc i) messages fps"
        using True nfp by (simp add: ignore_loop.simps [of i])
      with "1.prems" "1.IH"(2) [OF True refl nfp] show ?thesis by simp
    qed
  qed
qed

lemma ignore_false_positives_subseq: "subseq (ignore_false_positives messages fps) messages"
  unfolding ignore_false_positives_def by (rule ignore_loop_subseq)

lemma ignore_false_positives_removed_fp:
  "m \<in># mset messages - mset (ignore_false_positives messages fps) \<Longrightarrow> is_false_positive m fps"
  unfolding ignore_false_positives_def by (rule ignore_loop_removed_fp)

text \<open>
  When no false positive is left in the result, the loop has removed as many messages as
  the filter of the specification.
\<close>

lemma ignore_false_positives_clean_length:
  assumes clean: "\<forall>m \<in> set (ignore_false_positives messages fps). \<not> is_false_positive m fps"
  shows "length (ignore_false_positives messages fps) = length (spec_filter messages fps)"
proof -
  let ?r = "ignore_false_positives messages fps"
  let ?P = "\<lambda>m. \<not> is_false_positive m fps"
  have le: "mset ?r \<subseteq># mset messages"
    using ignore_false_positives_subseq by (rule subseq_mset_le)
  have "filter_mset ?P (mset messages) = mset ?r"
    unfolding filter_mset_eq_conv
    using le clean ignore_false_positives_removed_fp [of _ messages fps] by auto
  then have "mset (filter ?P messages) = mset ?r"
    by simp
  then have "length (filter ?P messages) = length ?r"
    by (rule mset_eq_length)
  then show ?thesis by (simp add: spec_filter_def)
qed

text \<open>
  Claim C3: the false-positive filter removes every message for which
  \<^verbatim>\<open>is_false_positive\<close> holds, and the survivors keep their relative order.
  The source's loop removes elements from the list it is walking, so the message that
  follows a removed one is never examined. With the rule \<^verbatim>\<open>XSS\<close> and the messages
  \<^verbatim>\<open>XSS in plugin A\<close>, \<^verbatim>\<open>XSS in plugin B\<close>, \<^verbatim>\<open>Outdated\<close> the second message, a false
  positive, survives; the filter of the specification keeps \<^verbatim>\<open>Outdated\<close> alone.
\<close>

theorem ignore_false_positives_keeps_a_false_positive:
  "ignore_false_positives [''XSS in plugin A'', ''XSS in plugin B'', ''Outdated''] [''XSS'']
     = [''XSS in plugin B'', ''Outdated'']
   \<and> is_false_positive ''XSS in plugin B'' [''XSS'']
   \<and> spec_filter [''XSS in plugin A'', ''XSS in plugin B'', ''Outdated''] [''XSS'']
     = [''Outdated'']"
  by code_simp

text \<open>
  Claim C4: applying the false-positive filter twice with the same rules gives the same
  result as applying it once. On the source's loop the second pass removes what the first
  one skipped: two false positives in a row leave the second after one pass and nothing
  after two.
\<close>

theorem ignore_false_positives_second_pass_differs:
  "ignore_false_positives [''XSS in plugin A'', ''XSS in plugin B''] [''XSS'']
     = [''XSS in plugin B'']
   \<and> ignore_false_positives
       (ignore_false_positives [''XSS in plugin A'', ''XSS in plugin B''] [''XSS'']) [''XSS'']
     = []"
  by code_simp

subsection \<open>The bucket methods of \<^verbatim>\<open>WPScanJsonParser\<close>\<close>

lemma component_infos_Inr:
  assumes "component_infos fps c = Inr xs"
  shows "\<exists>i a w. get_infos c = Inr (Some i) \<and> get_alerts c = Inr (Some a)
           \<and> get_warnings c = Inr (Some w)
           \<and> xs = i @ map false_positive_prefix (filter (\<lambda>m. is_false_positive m fps) (a @ w))"
  using assms unfolding component_infos_def
  by (auto simp: bind_result_Inr_iff iter_list_Inr_iff list_add_Inr_iff)

lemma component_alerts_Inr:
  assumes "component_alerts fps c = Inr xs"
  shows "\<exists>a. get_alerts c = Inr (Some a) \<and> xs = ignore_false_positives a fps"
  using assms unfolding component_alerts_def
  by (auto simp: bind_result_Inr_iff iter_list_Inr_iff)

lemma component_warnings_Inr:
  assumes "component_warnings fps c = Inr xs"
  shows "\<exists>w. get_warnings c = Inr (Some w)
           \<and> xs = (if lone_version_warning (ignore_false_positives w fps) then []
                   else ignore_false_positives w fps)"
  using assms unfolding component_warnings_def lone_version_warning_def
  by (auto simp: bind_result_Inr_iff iter_list_Inr_iff Let_def split: if_splits)

lemma infos_loop_Inr:
  "WPScanJsonParser_get_infos_loop fps cs acc = Inr r \<Longrightarrow>
     \<exists>parts. length parts = length cs
        \<and> (\<forall>k < length cs. component_infos fps (cs ! k) = Inr (parts ! k))
        \<and> r = acc @ concat parts"
proof (induction cs arbitrary: acc)
  case Nil
  then show ?case by simp
next
  case (Cons c cs)
  from Cons.prems obtain new where new: "component_infos fps c = Inr new"
    and rest: "WPScanJsonParser_get_infos_loop fps cs (acc @ new) = Inr r"
    by (auto simp: bind_result_Inr_iff)
  from Cons.IH [OF rest] obtain parts where p: "length parts = length cs"
    "\<forall>k < length cs. component_infos fps (cs ! k) = Inr (parts ! k)"
    "r = (acc @ new) @ concat parts" by blast
  have "length (new # parts) = length (c # cs)" using p(1) by simp
  moreover have "\<forall>k < length (c # cs). component_infos fps ((c # cs) ! k) = Inr ((new # parts) ! k)"
    using p(2) new by (auto simp: nth_Cons split: nat.splits)
  moreover have "r = acc @ concat (new # parts)" using p(3) by simp
  ultimately show ?case by blast
qed

lemma alerts_loop_Inr:
  "WPScanJsonParser_get_alerts_loop fps cs acc = Inr r \<Longrightarrow>
     \<exists>parts. length parts = length cs
        \<and> (\<forall>k < length cs. component_alerts fps (cs ! k) = Inr (parts ! k))
        \<and> r = acc @ concat parts"
proof (induction cs arbitrary: acc)
  case Nil
  then show ?case by simp
next
  case (Cons c cs)
  from Cons.prems obtain new where new: "component_alerts fps c = Inr new"
    and rest: "WPScanJsonParser_get_alerts_loop fps cs (acc @ new) = Inr r"
    by (auto simp: bind_result_Inr_iff)
  from Cons.IH [OF rest] obtain parts where p: "length parts = length cs"
    "\<forall>k < length cs. component_alerts fps (cs ! k) = Inr (parts ! k)"
    "r = (acc @ new) @ concat parts" by blast
  have "length (new # parts) = length (c # cs)" using p(1) by simp
  moreover have "\<forall>k < length (c # cs). component_alerts fps ((c # cs) ! k) = Inr ((new # parts) ! k)"
    using p(2) new by (auto simp: nth_Cons split: nat.splits)
  moreover have "r = acc @ concat (new # parts)" using p(3) by simp
  ultimately show ?case by blast
qed

lemma warnings_loop_Inr:
  "WPScanJsonParser_get_warnings_loop fps cs acc = Inr r \<Longrightarrow>
     \<exists>parts. length parts = length cs
        \<and> (\<forall>k < length cs. component_warnings fps (cs ! k) = Inr (parts ! k))
        \<and> r = acc @ concat parts"
proof (induction cs arbitrary: acc)
  case Nil
  then show ?case by simp
next
  case (Cons c cs)
  from Cons.prems obtain new where new: "component_warnings fps c = Inr new"
    and rest: "WPScanJsonParser_get_warnings_loop fps cs (acc @ new) = Inr r"
    by (auto simp: bind_result_Inr_iff)
  from Cons.IH [OF rest] obtain parts where p: "length parts = length cs"
    "\<forall>k < length cs. component_warnings fps (cs ! k) = Inr (parts ! k)"
    "r = (acc @ new) @ concat parts" by blast
  have "length (new # parts) = length (c # cs)" using p(1) by simp
  moreover have "\<forall>k < length (c # cs). component_warnings fps ((c # cs) ! k) = Inr ((new # parts) ! k)"
    using p(2) new by (auto simp: nth_Cons split: nat.splits)
  moreover have "r = acc @ concat (new # parts)" using p(3) by simp
  ultimately show ?case by blast
qed

lemma warnings_loop_append:
  "WPScanJsonParser_get_warnings_loop fps (xs @ ys) acc =
     bind_result (WPScanJsonParser_get_warnings_loop fps xs acc)
       (WPScanJsonParser_get_warnings_loop fps ys)"
proof (induction xs arbitrary: acc)
  case Nil
  show ?case by simp
next
  case (Cons c xs)
  show ?case
    by (cases "component_warnings fps c") (simp_all add: Cons.IH)
qed

lemma nth_subset_concat: "k < length parts \<Longrightarrow> set (parts ! k) \<subseteq> set (concat parts)"
proof
  fix x
  assume "k < length parts" and "x \<in> set (parts ! k)"
  then have "parts ! k \<in> set parts" and "x \<in> set (parts ! k)" by simp_all
  then show "x \<in> set (concat parts)" by auto
qed

lemma component_count:
  assumes i: "component_infos fps c = Inr new_infos"
      and w: "component_warnings fps c = Inr new_warnings"
      and a: "component_alerts fps c = Inr new_alerts"
      and not_lone: "\<not> lone_version_warning (ignore_false_positives (returned (get_warnings c)) fps)"
      and clean_w: "\<forall>m \<in> set (ignore_false_positives (returned (get_warnings c)) fps).
                      \<not> is_false_positive m fps"
      and clean_a: "\<forall>m \<in> set (ignore_false_positives (returned (get_alerts c)) fps).
                      \<not> is_false_positive m fps"
  shows "length new_infos + length new_warnings + length new_alerts =
           length (returned (get_infos c)) + length (returned (get_warnings c))
           + length (returned (get_alerts c))"
proof -
  from component_infos_Inr [OF i] obtain infs alts ws where
    gi: "get_infos c = Inr (Some infs)" and ga: "get_alerts c = Inr (Some alts)"
    and gw: "get_warnings c = Inr (Some ws)"
    and ni: "new_infos = infs @ map false_positive_prefix
                                (filter (\<lambda>m. is_false_positive m fps) (alts @ ws))"
    by blast
  have rw: "returned (get_warnings c) = ws" and ra: "returned (get_alerts c) = alts"
    and ri: "returned (get_infos c) = infs"
    using gi ga gw by (simp_all add: returned_def)
  from component_warnings_Inr [OF w] gw not_lone rw
  have nw: "new_warnings = ignore_false_positives ws fps" by auto
  from component_alerts_Inr [OF a] ga
  have na: "new_alerts = ignore_false_positives alts fps" by auto
  have lw: "length new_warnings = length (spec_filter ws fps)"
    unfolding nw using clean_w rw by (intro ignore_false_positives_clean_length) simp
  have la: "length new_alerts = length (spec_filter alts fps)"
    unfolding na using clean_a ra by (intro ignore_false_positives_clean_length) simp
  have "length (filter (\<lambda>m. is_false_positive m fps) ws) + length (spec_filter ws fps) = length ws"
    unfolding spec_filter_def by (rule sum_length_filter_compl)
  moreover have "length (filter (\<lambda>m. is_false_positive m fps) alts) + length (spec_filter alts fps) = length alts"
    unfolding spec_filter_def by (rule sum_length_filter_compl)
  ultimately show ?thesis
    using lw la by (simp add: ni ri rw ra)
qed

lemma loops_count:
  assumes "WPScanJsonParser_get_infos_loop fps cs acc_i = Inr infos"
      and "WPScanJsonParser_get_warnings_loop fps cs acc_w = Inr warnings"
      and "WPScanJsonParser_get_alerts_loop fps cs acc_a = Inr alerts"
      and "\<forall>c \<in> set cs. \<not> lone_version_warning (ignore_false_positives (returned (get_warnings c)) fps)"
      and "\<forall>c \<in> set cs. \<forall>m \<in> set (ignore_false_positives (returned (get_warnings c)) fps).
             \<not> is_false_positive m fps"
      and "\<forall>c \<in> set cs. \<forall>m \<in> set (ignore_false_positives (returned (get_alerts c)) fps).
             \<not> is_false_positive m fps"
  shows "length infos + length warnings + length alerts =
           length acc_i + length acc_w + length acc_a + prefilter_total cs"
  using assms
proof (induction cs arbitrary: acc_i acc_w acc_a)
  case Nil
  then show ?case by (simp add: prefilter_total_def)
next
  case (Cons c cs)
  from Cons.prems(1) obtain ni where ni: "component_infos fps c = Inr ni"
    and li: "WPScanJsonParser_get_infos_loop fps cs (acc_i @ ni) = Inr infos"
    by (auto simp: bind_result_Inr_iff)
  from Cons.prems(2) obtain nw where nw: "component_warnings fps c = Inr nw"
    and lw: "WPScanJsonParser_get_warnings_loop fps cs (acc_w @ nw) = Inr warnings"
    by (auto simp: bind_result_Inr_iff)
  from Cons.prems(3) obtain na where na: "component_alerts fps c = Inr na"
    and la: "WPScanJsonParser_get_alerts_loop fps cs (acc_a @ na) = Inr alerts"
    by (auto simp: bind_result_Inr_iff)
  have here: "length ni + length nw + length na =
           length (returned (get_infos c)) + length (returned (get_warnings c))
           + length (returned (get_alerts c))"
    using Cons.prems(4,5,6) by (intro component_count [OF ni nw na]) simp_all
  have "length infos + length warnings + length alerts =
          length (acc_i @ ni) + length (acc_w @ nw) + length (acc_a @ na) + prefilter_total cs"
    using Cons.prems(4,5,6) by (intro Cons.IH [OF li lw la]) simp_all
  with here show ?case by (simp add: prefilter_total_def)
qed

text \<open>
  Claim C5: a component whose warning bucket, after false-positive filtering, is the single
  message saying that the version could not be determined contributes no warning at all,
  whatever the false-positive rules are. The test of the source is on the phrase
  \<^verbatim>\<open>The version could not be determined\<close> occurring in the single message; the
  returned warnings are those of the parser without the component.
\<close>

theorem lone_version_warning_suppressed:
  assumes "get_warnings c = Inr (Some ws)"
      and "ignore_false_positives ws fps = [m]"
      and "str_in ''The version could not be determined'' m"
  shows "component_warnings fps c = Inr []
       \<and> WPScanJsonParser_get_warnings
           \<lparr> false_positives_strings = fps, components = before @ [c] @ after \<rparr>
         = WPScanJsonParser_get_warnings
           \<lparr> false_positives_strings = fps, components = before @ after \<rparr>"
proof -
  have here: "component_warnings fps c = Inr []"
    using assms by (simp add: component_warnings_def iter_list_def version_undetermined_def)
  have "WPScanJsonParser_get_warnings_loop fps (before @ [c] @ after) []
        = WPScanJsonParser_get_warnings_loop fps (before @ after) []"
  proof (cases "WPScanJsonParser_get_warnings_loop fps before []")
    case (Inl e)
    then show ?thesis by (simp add: warnings_loop_append)
  next
    case (Inr acc)
    then show ?thesis by (simp add: warnings_loop_append here)
  qed
  with here show ?thesis by (simp add: WPScanJsonParser_get_warnings_def)
qed

theorem lone_version_warning_suppressed_witness:
  "get_warnings \<lparr> get_infos = Inr (Some []),
                  get_warnings = Inr (Some [''XSS in akismet'',
                                            ''The version could not be determined by WPScan'']),
                  get_alerts = Inr (Some []) \<rparr>
     = Inr (Some [''XSS in akismet'', ''The version could not be determined by WPScan''])
   \<and> ignore_false_positives
       [''XSS in akismet'', ''The version could not be determined by WPScan''] [''XSS'']
     = [''The version could not be determined by WPScan'']
   \<and> str_in ''The version could not be determined''
       ''The version could not be determined by WPScan''
   \<and> WPScanJsonParser_get_warnings
       \<lparr> false_positives_strings = [''XSS''],
         components = [\<lparr> get_infos = Inr (Some []),
                         get_warnings = Inr (Some [''XSS in akismet'',
                                                   ''The version could not be determined by WPScan'']),
                         get_alerts = Inr (Some []) \<rparr>] \<rparr>
     = Inr []"
proof -
  let ?ws = "[''XSS in akismet'', ''The version could not be determined by WPScan'']"
  let ?c = "\<lparr> get_infos = Inr (Some []), get_warnings = Inr (Some ?ws),
              get_alerts = Inr (Some []) \<rparr>"
  have h1: "get_warnings ?c = Inr (Some ?ws)" by simp
  have h2: "ignore_false_positives ?ws [''XSS''] = [''The version could not be determined by WPScan'']"
    by code_simp
  have h3: "str_in ''The version could not be determined''
              ''The version could not be determined by WPScan''"
    by code_simp
  have empty: "WPScanJsonParser_get_warnings
                 \<lparr> false_positives_strings = [''XSS''], components = [] \<rparr> = Inr []"
    by code_simp
  from lone_version_warning_suppressed [OF h1 h2 h3, of "[]" "[]"] empty
  have "WPScanJsonParser_get_warnings
          \<lparr> false_positives_strings = [''XSS''], components = [?c] \<rparr> = Inr []"
    by simp
  with h1 h2 h3 show ?thesis by simp
qed

text \<open>
  Claim C2 as stated: after filtering, alerts plus warnings plus infos (the demoted false
  positives included) are as many as the messages before filtering. A component whose only
  warning is a version-undetermined message, with no rule at all: the warning is cleared by
  the suppression rule and shows up nowhere, so one message goes in and none comes out.
\<close>

theorem suppressed_warning_not_counted_counterexample:
  "WPScanJsonParser_get_infos
     \<lparr> false_positives_strings = [],
       components = [\<lparr> get_infos = Inr (Some []),
                       get_warnings = Inr (Some [''akismet'' @ nl @ ''The version could not be determined'']),
                       get_alerts = Inr (Some []) \<rparr>] \<rparr> = Inr []
   \<and> WPScanJsonParser_get_warnings
     \<lparr> false_positives_strings = [],
       components = [\<lparr> get_infos = Inr (Some []),
                       get_warnings = Inr (Some [''akismet'' @ nl @ ''The version could not be determined'']),
                       get_alerts = Inr (Some []) \<rparr>] \<rparr> = Inr []
   \<and> WPScanJsonParser_get_alerts
     \<lparr> false_positives_strings = [],
       components = [\<lparr> get_infos = Inr (Some []),
                       get_warnings = Inr (Some [''akismet'' @ nl @ ''The version could not be determined'']),
                       get_alerts = Inr (Some []) \<rparr>] \<rparr> = Inr []
   \<and> prefilter_total
       [\<lparr> get_infos = Inr (Some []),
          get_warnings = Inr (Some [''akismet'' @ nl @ ''The version could not be determined'']),
          get_alerts = Inr (Some []) \<rparr>] = 1"
  by code_simp

text \<open>
  Claim C2, amended: every alert or warning message that false-positive filtering removes
  from a component's bucket (it occurs less often after the filter than before) is in the
  info bucket with the prefix \<^verbatim>\<open>[False positive]\<close> and a line feed. The numbers of
  alerts, warnings and infos returned add up to the number of messages before filtering
  whenever no component's filtered warning bucket is a lone version-undetermined message
  (that one is suppressed without being shown again) and no false positive is left in the
  returned alerts and warnings.
\<close>

theorem removed_messages_resurface_as_infos:
  assumes infos: "WPScanJsonParser_get_infos self = Inr infos"
      and warnings: "WPScanJsonParser_get_warnings self = Inr warnings"
      and alerts: "WPScanJsonParser_get_alerts self = Inr alerts"
  shows "(\<forall>c \<in> set (components self). \<forall>m.
            (count_list (ignore_false_positives (returned (get_alerts c))
                           (false_positives_strings self)) m
               < count_list (returned (get_alerts c)) m
             \<or> count_list (ignore_false_positives (returned (get_warnings c))
                             (false_positives_strings self)) m
               < count_list (returned (get_warnings c)) m)
            \<longrightarrow> false_positive_prefix m \<in> set infos)
       \<and> ((\<forall>c \<in> set (components self).
              \<not> lone_version_warning
                  (ignore_false_positives (returned (get_warnings c))
                     (false_positives_strings self)))
           \<and> (\<forall>m \<in> set alerts \<union> set warnings.
                 \<not> is_false_positive m (false_positives_strings self))
           \<longrightarrow> length alerts + length warnings + length infos
                 = prefilter_total (components self))"
proof (intro conjI ballI allI impI)
  let ?fps = "false_positives_strings self"
  let ?cs = "components self"
  from infos obtain pi where pi: "length pi = length ?cs"
    "\<forall>k < length ?cs. component_infos ?fps (?cs ! k) = Inr (pi ! k)" "infos = concat pi"
    unfolding WPScanJsonParser_get_infos_def by (auto dest: infos_loop_Inr)
  {
    fix c m
    assume c: "c \<in> set ?cs"
      and m0: "count_list (ignore_false_positives (returned (get_alerts c)) ?fps) m
                 < count_list (returned (get_alerts c)) m
              \<or> count_list (ignore_false_positives (returned (get_warnings c)) ?fps) m
                 < count_list (returned (get_warnings c)) m"
    then have m: "m \<in># mset (returned (get_alerts c)) - mset (ignore_false_positives (returned (get_alerts c)) ?fps)
              \<or> m \<in># mset (returned (get_warnings c)) - mset (ignore_false_positives (returned (get_warnings c)) ?fps)"
      by (simp add: in_diff_count count_mset)
    from c obtain k where k: "k < length ?cs" "c = ?cs ! k"
      by (auto simp: in_set_conv_nth)
    from pi(2) k have "component_infos ?fps c = Inr (pi ! k)" by simp
    from component_infos_Inr [OF this] obtain infs alts ws where
      ga: "get_alerts c = Inr (Some alts)" and gw: "get_warnings c = Inr (Some ws)"
      and part: "pi ! k = infs @ map false_positive_prefix
                                (filter (\<lambda>m. is_false_positive m ?fps) (alts @ ws))"
      by blast
    have ra: "returned (get_alerts c) = alts" and rw: "returned (get_warnings c) = ws"
      using ga gw by (simp_all add: returned_def)
    from m have fp: "is_false_positive m ?fps"
      by (auto dest: ignore_false_positives_removed_fp)
    from m have "m \<in> set alts \<or> m \<in> set ws"
      unfolding ra rw by (auto dest: in_diffD)
    with fp have "false_positive_prefix m \<in> set (pi ! k)"
      unfolding part by auto
    moreover have "set (pi ! k) \<subseteq> set infos"
      unfolding pi(3) using k(1) pi(1) by (intro nth_subset_concat) simp
    ultimately show "false_positive_prefix m \<in> set infos" by blast
  }
  assume hyp: "(\<forall>c \<in> set ?cs. \<not> lone_version_warning
                  (ignore_false_positives (returned (get_warnings c)) ?fps))
           \<and> (\<forall>m \<in> set alerts \<union> set warnings. \<not> is_false_positive m ?fps)"
  from alerts obtain pa where pa: "length pa = length ?cs"
    "\<forall>k < length ?cs. component_alerts ?fps (?cs ! k) = Inr (pa ! k)" "alerts = concat pa"
    unfolding WPScanJsonParser_get_alerts_def by (auto dest: alerts_loop_Inr)
  from warnings obtain pw where pw: "length pw = length ?cs"
    "\<forall>k < length ?cs. component_warnings ?fps (?cs ! k) = Inr (pw ! k)" "warnings = concat pw"
    unfolding WPScanJsonParser_get_warnings_def by (auto dest: warnings_loop_Inr)
  have clean_a: "\<forall>c \<in> set ?cs. \<forall>m \<in> set (ignore_false_positives (returned (get_alerts c)) ?fps).
             \<not> is_false_positive m ?fps"
  proof (intro ballI)
    fix c m
    assume c: "c \<in> set ?cs"
      and m: "m \<in> set (ignore_false_positives (returned (get_alerts c)) ?fps)"
    from c obtain k where k: "k < length ?cs" "c = ?cs ! k"
      by (auto simp: in_set_conv_nth)
    from pa(2) k have "component_alerts ?fps c = Inr (pa ! k)" by simp
    from component_alerts_Inr [OF this]
    have "pa ! k = ignore_false_positives (returned (get_alerts c)) ?fps"
      by (auto simp: returned_def)
    with m have "m \<in> set (pa ! k)" by simp
    moreover have "set (pa ! k) \<subseteq> set alerts"
      unfolding pa(3) using k(1) pa(1) by (intro nth_subset_concat) simp
    ultimately show "\<not> is_false_positive m ?fps" using hyp by blast
  qed
  have clean_w: "\<forall>c \<in> set ?cs. \<forall>m \<in> set (ignore_false_positives (returned (get_warnings c)) ?fps).
             \<not> is_false_positive m ?fps"
  proof (intro ballI)
    fix c m
    assume c: "c \<in> set ?cs"
      and m: "m \<in> set (ignore_false_positives (returned (get_warnings c)) ?fps)"
    from c obtain k where k: "k < length ?cs" "c = ?cs ! k"
      by (auto simp: in_set_conv_nth)
    from pw(2) k have "component_warnings ?fps c = Inr (pw ! k)" by simp
    from component_warnings_Inr [OF this] hyp c
    have "pw ! k = ignore_false_positives (returned (get_warnings c)) ?fps"
      by (auto simp: returned_def)
    with m have "m \<in> set (pw ! k)" by simp
    moreover have "set (pw ! k) \<subseteq> set warnings"
      unfolding pw(3) using k(1) pw(1) by (intro nth_subset_concat) simp
    ultimately show "\<not> is_false_positive m ?fps" using hyp by blast
  qed
  have "length infos + length warnings + length alerts =
          length ([]::string list) + length ([]::string list) + length ([]::string list)
          + prefilter_total ?cs"
    using hyp clean_w clean_a
    by (intro loops_count
          [OF infos [unfolded WPScanJsonParser_get_infos_def]
              warnings [unfolded WPScanJsonParser_get_warnings_def]
              alerts [unfolded WPScanJsonParser_get_alerts_def]]) simp_all
  then show "length alerts + length warnings + length infos = prefilter_total ?cs"
    by simp
qed

theorem removed_messages_resurface_as_infos_witness:
  "WPScanJsonParser_get_infos
     \<lparr> false_positives_strings = [''XSS''],
       components = [\<lparr> get_infos = Inr (Some [''Plugin: akismet'']),
                       get_warnings = Inr (Some [''akismet XSS'', ''akismet outdated'']),
                       get_alerts = Inr (Some [''SQLi'']) \<rparr>] \<rparr>
     = Inr [''Plugin: akismet'', false_positive_prefix ''akismet XSS'']
   \<and> WPScanJsonParser_get_warnings
     \<lparr> false_positives_strings = [''XSS''],
       components = [\<lparr> get_infos = Inr (Some [''Plugin: akismet'']),
                       get_warnings = Inr (Some [''akismet XSS'', ''akismet outdated'']),
                       get_alerts = Inr (Some [''SQLi'']) \<rparr>] \<rparr>
     = Inr [''akismet outdated'']
   \<and> WPScanJsonParser_get_alerts
     \<lparr> false_positives_strings = [''XSS''],
       components = [\<lparr> get_infos = Inr (Some [''Plugin: akismet'']),
                       get_warnings = Inr (Some [''akismet XSS'', ''akismet outdated'']),
                       get_alerts = Inr (Some [''SQLi'']) \<rparr>] \<rparr>
     = Inr [''SQLi'']
   \<and> false_positive_prefix ''akismet XSS''
       \<in> set [''Plugin: akismet'', false_positive_prefix ''akismet XSS'']
   \<and> length [''SQLi''] + length [''akismet outdated'']
       + length [''Plugin: akismet'', false_positive_prefix ''akismet XSS'']
     = prefilter_total
         [\<lparr> get_infos = Inr (Some [''Plugin: akismet'']),
            get_warnings = Inr (Some [''akismet XSS'', ''akismet outdated'']),
            get_alerts = Inr (Some [''SQLi'']) \<rparr>]"
proof -
  let ?c = "\<lparr> get_infos = Inr (Some [''Plugin: akismet'']),
              get_warnings = Inr (Some [''akismet XSS'', ''akismet outdated'']),
              get_alerts = Inr (Some [''SQLi'']) \<rparr>"
  let ?S = "\<lparr> false_positives_strings = [''XSS''], components = [?c] \<rparr>"
  have i: "WPScanJsonParser_get_infos ?S = Inr [''Plugin: akismet'', false_positive_prefix ''akismet XSS'']"
    by code_simp
  have w: "WPScanJsonParser_get_warnings ?S = Inr [''akismet outdated'']"
    by code_simp
  have a: "WPScanJsonParser_get_alerts ?S = Inr [''SQLi'']"
    by code_simp
  have removed: "count_list (ignore_false_positives (returned (get_warnings ?c)) [''XSS'']) ''akismet XSS''
                   < count_list (returned (get_warnings ?c)) ''akismet XSS''"
    by code_simp
  have not_lone: "\<not> lone_version_warning (ignore_false_positives (returned (get_warnings ?c)) [''XSS''])"
    by code_simp
  have clean: "\<forall>m \<in> set [''SQLi''] \<union> set [''akismet outdated'']. \<not> is_false_positive m [''XSS'']"
    by code_simp
  from removed_messages_resurface_as_infos [OF i w a] removed not_lone clean
  have "false_positive_prefix ''akismet XSS''
          \<in> set [''Plugin: akismet'', false_positive_prefix ''akismet XSS'']"
    and "length [''SQLi''] + length [''akismet outdated'']
           + length [''Plugin: akismet'', false_positive_prefix ''akismet XSS'']
         = prefilter_total [?c]"
    by simp_all
  with i w a show ?thesis by simp
qed

subsection \<open>The structured parser\<close>

text \<open>
  \<^verbatim>\<open>parse_json\<close> never puts anything in the info or the alert bucket: the calls that
  filled them are commented out in the source.
\<close>

lemma parse_json_infos_alerts_empty:
  "parse_json data = Inr (infos, warnings, alerts) \<Longrightarrow> infos = [] \<and> alerts = []"
  by (auto simp: parse_json_def bind_result_Inr_iff split: if_splits)

text \<open>
  A report whose target URL is missing or false is refused with \<^verbatim>\<open>ValueError\<close>.
\<close>

lemma parse_json_no_target:
  "\<not> truthy data \<or> contains ''target_url'' data = Inr False
     \<or> (\<exists>v. getitem data ''target_url'' = Inr v \<and> \<not> truthy v \<and> contains ''target_url'' data = Inr True)
   \<Longrightarrow> parse_json data = Inl ValueError"
  by (auto simp: parse_json_def)

text \<open>
  Claim C7 as stated: parsing \<^verbatim>\<open>{"target_url": "http://x"}\<close> succeeds with an info
  bucket that holds a target-info line. The info bucket returned is empty; and
  \<^verbatim>\<open>parse_target\<close>, the function that builds the target-info line, raises
  \<^verbatim>\<open>KeyError\<close> on this report, which has no \<^verbatim>\<open>effective_url\<close>.
\<close>

theorem parse_json_target_only_no_info_counterexample:
  "parse_json (JDict [(''target_url'', JStr ''http://x'')]) = Inr ([], [], [])
   \<and> parse_target (JDict [(''target_url'', JStr ''http://x'')]) = Inl KeyError"
  by code_simp

text \<open>
  Claim C7, amended: structured-mode parsing of \<^verbatim>\<open>{"target_url": null}\<close> fails with
  the format error \<^verbatim>\<open>ValueError\<close>, and parsing of
  \<^verbatim>\<open>{"target_url": "http://x"}\<close> with no other key succeeds and returns three empty
  buckets.
\<close>

theorem parse_json_target_url_check:
  "parse_json (JDict [(''target_url'', JNull)]) = Inl ValueError
   \<and> parse_json (JDict [(''target_url'', JStr ''http://x'')]) = Inr ([], [], [])"
  by code_simp

subsection \<open>The transcript parser\<close>

text \<open>
  The exceptions raised after the first check of \<^verbatim>\<open>parse_cli\<close> are the
  \<^verbatim>\<open>IndexError\<close> of the first line of an empty sub-message and the \<^verbatim>\<open>NameError\<close>
  of the undefined name \<^verbatim>\<open>is_false_positive\<close>.
\<close>

lemma bind_result_Inl_iff:
  "bind_result r f = Inl e \<longleftrightarrow> r = Inl e \<or> (\<exists>v. r = Inr v \<and> f v = Inl e)"
  by (cases r) simp_all

lemma first_line_has_title_error: "first_line_has_title m = Inl e \<Longrightarrow> e = IndexError"
  by (auto simp: first_line_has_title_def split: list.splits)

lemma filter_result_error:
  "filter_result p xs = Inl e \<Longrightarrow> \<exists>x \<in> set xs. p x = Inl e"
  by (induction xs) (auto simp: bind_result_Inl_iff)

lemma end_of_message_error:
  assumes "end_of_message fps st current_message = Inl e"
  shows "e = IndexError \<or> e = NameError"
proof -
  have neg: "\<And>m. bind_result (first_line_has_title m) (\<lambda>b. Inr (\<not> b)) = Inl e \<Longrightarrow> e = IndexError"
    by (auto simp: bind_result_Inl_iff dest: first_line_has_title_error)
  have name: "\<And>v. bind_result (module_is_false_positive v fps) (\<lambda>b. Inr (\<not> b)) = Inl e
                \<Longrightarrow> e = NameError"
    by (simp add: module_is_false_positive_def)
  from assms show ?thesis
    unfolding end_of_message_def
    by (auto simp: bind_result_Inl_iff Let_def split: if_splits
             dest!: filter_result_error dest: first_line_has_title_error neg name)
qed

lemma parse_cli_line_error:
  "parse_cli_line fps st raw_line = Inl e \<Longrightarrow> e = IndexError \<or> e = NameError"
  unfolding parse_cli_line_def
  by (auto simp: Let_def split: if_splits prod.splits dest: end_of_message_error)

lemma parse_cli_lines_error:
  "parse_cli_lines fps ls st = Inl e \<Longrightarrow> e = IndexError \<or> e = NameError"
  by (induction ls arbitrary: st) (auto simp: bind_result_Inl_iff dest: parse_cli_line_error)

text \<open>
  Claim C8: on every input in which the marker \<^verbatim>\<open>[+]\<close> does not occur,
  transcript-mode parsing raises the format error \<^verbatim>\<open>ValueError\<close> instead of returning
  buckets, and this is the only check that raises it: whenever the marker occurs, the
  result is not a format error. This holds for every rule list.
\<close>

theorem parse_cli_format_error_iff_no_marker:
  "parse_cli wpscan_output false_positives = Inl ValueError
     \<longleftrightarrow> \<not> str_in ''[+]'' wpscan_output"
  unfolding parse_cli_def
  by (auto simp: bind_result_Inl_iff dest: parse_cli_lines_error)

theorem parse_cli_format_error_iff_no_marker_witness:
  "\<not> str_in ''[+]'' ''Scan aborted: target unreachable''
   \<and> parse_cli ''Scan aborted: target unreachable'' [''XSS''] = Inl ValueError
   \<and> str_in ''[+]'' ''[+] URL: http://wp.test/''
   \<and> parse_cli ''[+] URL: http://wp.test/'' [''XSS'']
       = Inr ([''[+] URL: http://wp.test/''], [], [])"
proof -
  have a: "\<not> str_in ''[+]'' ''Scan aborted: target unreachable''" by code_simp
  have b: "str_in ''[+]'' ''[+] URL: http://wp.test/''" by code_simp
  have c: "parse_cli ''[+] URL: http://wp.test/'' [''XSS'']
             = Inr ([''[+] URL: http://wp.test/''], [], [])" by code_simp
  from a parse_cli_format_error_iff_no_marker [of "''Scan aborted: target unreachable''" "[''XSS'']"]
  have "parse_cli ''Scan aborted: target unreachable'' [''XSS''] = Inl ValueError"
    by simp
  with a b c show ?thesis by simp
qed

text \<open>
  The run of \<^verbatim>\<open>parse_cli\<close> on the transcript \<open>compound_transcript\<close>. After the last
  line of the block the warning toggle is on and the alert toggle is off, so the
  sub-blocks with a title are bound for the warning bucket; the closing blank line ends the
  message, the block is split into its three sub-messages, the two with a title are the
  vulnerabilities, and the test of the rest of the block evaluates the undefined name.
\<close>

lemma parse_cli_lines_append:
  "parse_cli_lines fps (xs @ ys) st =
     bind_result (parse_cli_lines fps xs st) (parse_cli_lines fps ys)"
proof (induction xs arbitrary: st)
  case Nil
  show ?case by simp
next
  case (Cons l xs)
  show ?case
    by (cases "parse_cli_line fps st l") (simp_all add: Cons.IH)
qed

lemma compound_transcript_lines: "splitlines compound_transcript @ [[]] =
   [[CHR 0x1B] @ ''[32m[+]'' @ [CHR 0x1B] @ ''[0m URL: http://wp.test/'',
    [],
    warning_mark @ '' Title: X'',
    warning_mark @ '' 2 vulnerabilities identified:'',
    ''|'',
    ''| '' @ warning_mark @ '' Title: CVE-1'',
    ''|'',
    ''| '' @ warning_mark @ '' Title: CVE-2'',
    []]"
  by code_simp

lemma compound_transcript_before_end: "parse_cli_lines fps
   [[CHR 0x1B] @ ''[32m[+]'' @ [CHR 0x1B] @ ''[0m URL: http://wp.test/'',
    [],
    warning_mark @ '' Title: X'',
    warning_mark @ '' 2 vulnerabilities identified:'',
    ''|'',
    ''| '' @ warning_mark @ '' Title: CVE-1'',
    ''|'',
    ''| '' @ warning_mark @ '' Title: CVE-2'']
   \<lparr> cli_messages = [], cli_warnings = [], cli_alerts = [],
     cli_warning_on = False, cli_alert_on = False, cli_message_lines = [] \<rparr>
  = Inr \<lparr> cli_messages = [''[+] URL: http://wp.test/''], cli_warnings = [], cli_alerts = [],
     cli_warning_on = True, cli_alert_on = False,
     cli_message_lines = [''[!] Title: X'', ''[!] 2 vulnerabilities identified:'', ''|'',
        ''| [!] Title: CVE-1'', ''|'', ''| [!] Title: CVE-2''] \<rparr>"
  by code_simp

lemma compound_transcript_split:
  "separate_messages
     ([''[!] Title: X'', ''[!] 2 vulnerabilities identified:'', ''|'',
       ''| [!] Title: CVE-1'', ''|'', ''| [!] Title: CVE-2'', []] @ [''|'']) [] []
   = [''[!] Title: X'' @ nl @ ''[!] 2 vulnerabilities identified:'',
      ''| [!] Title: CVE-1'', ''| [!] Title: CVE-2'']
   \<and> filter_result first_line_has_title
       [''[!] Title: X'' @ nl @ ''[!] 2 vulnerabilities identified:'',
        ''| [!] Title: CVE-1'', ''| [!] Title: CVE-2'']
     = Inr [''| [!] Title: CVE-1'', ''| [!] Title: CVE-2'']"
  by code_simp

lemma compound_transcript_end:
  "parse_cli_line fps
     \<lparr> cli_messages = [''[+] URL: http://wp.test/''], cli_warnings = [], cli_alerts = [],
       cli_warning_on = True, cli_alert_on = False,
       cli_message_lines = [''[!] Title: X'', ''[!] 2 vulnerabilities identified:'', ''|'',
          ''| [!] Title: CVE-1'', ''|'', ''| [!] Title: CVE-2''] \<rparr> []
   = Inl NameError"
  by code_simp

text \<open>
  Claim C6: for the transcript block
  \<^verbatim>\<open>[!] Title: X\<close>, \<^verbatim>\<open>[!] 2 vulnerabilities identified:\<close>, \<^verbatim>\<open>|\<close>,
  \<^verbatim>\<open>| [!] Title: CVE-1\<close>, \<^verbatim>\<open>|\<close>, \<^verbatim>\<open>| [!] Title: CVE-2\<close>, parsed with its
  markers in the warning colour, the split of the compound block puts both CVE title
  sub-blocks in the warning bucket and not in the alert bucket. On this transcript
  \<^verbatim>\<open>parse_cli\<close> returns no bucket at all: whatever the rule list, it raises
  \<^verbatim>\<open>NameError\<close> at the end of the block.
\<close>

theorem compound_block_raises_name_error:
  "parse_cli compound_transcript false_positives = Inl NameError"
proof -
  let ?init = "\<lparr> cli_messages = [], cli_warnings = [], cli_alerts = [],
     cli_warning_on = False, cli_alert_on = False, cli_message_lines = [] \<rparr>"
  let ?first = "[[CHR 0x1B] @ ''[32m[+]'' @ [CHR 0x1B] @ ''[0m URL: http://wp.test/'',
    [],
    warning_mark @ '' Title: X'',
    warning_mark @ '' 2 vulnerabilities identified:'',
    ''|'',
    ''| '' @ warning_mark @ '' Title: CVE-1'',
    ''|'',
    ''| '' @ warning_mark @ '' Title: CVE-2'']"
  have marker: "str_in ''[+]'' compound_transcript" by code_simp
  have split: "splitlines compound_transcript @ [[]] = ?first @ [[]]"
    using compound_transcript_lines by simp
  have "parse_cli_lines false_positives (splitlines compound_transcript @ [[]]) ?init
        = bind_result (parse_cli_lines false_positives ?first ?init)
            (parse_cli_lines false_positives [[]])"
    unfolding split by (rule parse_cli_lines_append)
  also have "\<dots> = parse_cli_line false_positives
       \<lparr> cli_messages = [''[+] URL: http://wp.test/''], cli_warnings = [], cli_alerts = [],
         cli_warning_on = True, cli_alert_on = False,
         cli_message_lines = [''[!] Title: X'', ''[!] 2 vulnerabilities identified:'', ''|'',
            ''| [!] Title: CVE-1'', ''|'', ''| [!] Title: CVE-2''] \<rparr> []"
    unfolding compound_transcript_before_end by (simp add: bind_result_def split: sum.splits)
  finally have "parse_cli_lines false_positives (splitlines compound_transcript @ [[]]) ?init
        = Inl NameError"
    unfolding compound_transcript_end .
  with marker show ?thesis
    by (simp add: parse_cli_def)
qed

text \<open>
  The toggles depend on the colour of every marker: an uncoloured \<^verbatim>\<open>[!]\<close> switches the
  alert toggle on. In the same block with only its first marker coloured the alert toggle
  is on after the last line, so the sub-blocks are bound for the alert bucket; the end of
  the block raises the same exception.
\<close>

lemma uncoloured_markers_set_alert_toggle:
  "parse_cli_lines fps
     [''[+] URL: http://wp.test/'',
      [],
      warning_mark @ '' Title: X'',
      ''[!] 2 vulnerabilities identified:'',
      ''|'',
      ''| [!] Title: CVE-1'',
      ''|'',
      ''| [!] Title: CVE-2'']
     \<lparr> cli_messages = [], cli_warnings = [], cli_alerts = [],
       cli_warning_on = False, cli_alert_on = False, cli_message_lines = [] \<rparr>
   = Inr \<lparr> cli_messages = [''[+] URL: http://wp.test/''], cli_warnings = [], cli_alerts = [],
       cli_warning_on = True, cli_alert_on = True,
       cli_message_lines = [''[!] Title: X'', ''[!] 2 vulnerabilities identified:'', ''|'',
          ''| [!] Title: CVE-1'', ''|'', ''| [!] Title: CVE-2''] \<rparr>"
  by code_simp

lemma uncoloured_transcript_raises:
  "parse_cli uncoloured_transcript [] = Inl NameError"
  by code_simp

text \<open>
  A compound block without any title sub-block does not evaluate the undefined name and
  is returned as a false-positive remainder in the info bucket.
\<close>

lemma compound_block_without_title:
  "parse_cli (''[+] URL: http://wp.test/'' @ nl @ nl
              @ warning_mark @ '' 2 vulnerabilities identified:'') [''XSS'']
   = Inr ([''[+] URL: http://wp.test/'',
           ''[False positive]'' @ nl @ ''[!] 2 vulnerabilities identified:''], [], [])"
  by code_simp

subsection \<open>The finding classes\<close>

lemma reference_lines_Pair:
  "reference_lines (ref, links) = concat (map (\<lambda>link. nl @ ''- '' @ reference_label ref @ link) links)"
  by (simp add: reference_lines_def)

lemma str_in_middle: "str_in x (a @ x @ b)"
  by (rule sublist_appendI)

text \<open>
  Claim C9: for every vulnerability record \<^verbatim>\<open>get_alerts\<close> returns exactly one alert
  string, whose first line is the title, with the score, the fix and the reference lines.
  The initializer provides for a record without a title (it reads the title with
  \<^verbatim>\<open>data.get('title', None)\<close>), and the score, the fix and the references are tested
  before they are used; the title is not. On the record of the claim's own example, which
  has the references \<^verbatim>\<open>{"cve": ["2020-1234"]}\<close> and nothing else, \<^verbatim>\<open>alert\<close> starts
  as \<^verbatim>\<open>None\<close> and the first concatenation raises \<^verbatim>\<open>TypeError\<close>, where the
  docstring says \<^verbatim>\<open>Return 1 alert\<close>. (Building the object from the record raises
  \<^verbatim>\<open>TypeError\<close> as well, at the call of the base initializer.)
\<close>

theorem vulnerability_without_title_raises:
  "Vulnerability_get_alerts
     \<lparr> title = None, cvss = None, fixed_in = None,
       references = Some [(''cve'', [''2020-1234''])] \<rparr> = Inl TypeError
   \<and> Vulnerability_init
       (Some \<lparr> title = None, cvss = None, fixed_in = None,
               references = Some [(''cve'', [''2020-1234''])] \<rparr>) = Inl TypeError"
  by (simp add: Vulnerability_get_alerts_def Vulnerability_init_def
        call_with_self_and_data_def)

text \<open>
  What \<^verbatim>\<open>Vulnerability.get_alerts\<close> does for a record that has a title: it returns
  exactly one alert string; the string starts with the title followed by a line feed, so
  the title is its first line; it contains a line \<^verbatim>\<open>CVSS:\<close> with the score when a
  non-empty score is present; it contains a line \<^verbatim>\<open>Fixed in:\<close> with the version when a
  non-empty \<^verbatim>\<open>fixed_in\<close> is present and the line \<^verbatim>\<open>Not fixed yet\<close> otherwise; when
  references are present it ends with the heading \<^verbatim>\<open>References:\<close> followed, for each
  reference type in turn, by one line per link of that type, a dash, the label of the type
  and the link. With the references \<^verbatim>\<open>{"cve": ["2020-1234"]}\<close> the line is
  \<^verbatim>\<open>- CVE: http://cve.mitre.org/cgi-bin/cvename.cgi?name=CVE-2020-1234\<close>.
\<close>

lemma vulnerability_with_title_layout:
  assumes "title v = Some t"
  shows "\<exists>alert. Vulnerability_get_alerts v = Inr [alert]
     \<and> prefix (t @ nl) alert
     \<and> (\<forall>score. cvss v = Some score \<and> score \<noteq> [] \<longrightarrow> str_in (nl @ ''CVSS: '' @ score) alert)
     \<and> (\<forall>release. fixed_in v = Some release \<and> release \<noteq> [] \<longrightarrow> str_in (nl @ ''Fixed in: '' @ release) alert)
     \<and> (fixed_in v = None \<or> fixed_in v = Some [] \<longrightarrow> str_in (nl @ ''Not fixed yet'') alert)
     \<and> (\<forall>refs. references v = Some refs \<and> refs \<noteq> [] \<longrightarrow>
            suffix (nl @ ''References: ''
                    @ concat (map (\<lambda>(ref, links).
                        concat (map (\<lambda>link. nl @ ''- '' @ reference_label ref @ link) links)) refs))
              alert)
     \<and> (references v = Some [(''cve'', [''2020-1234''])] \<longrightarrow>
            str_in (nl @ ''- CVE: http://cve.mitre.org/cgi-bin/cvename.cgi?name=CVE-2020-1234'') alert)"
proof -
  define c where "c = (if truthy_str (cvss v) then nl @ ''CVSS: '' @ format_str (cvss v) else [])"
  define f where "f = (if truthy_str (fixed_in v)
                  then nl @ ''Fixed in: '' @ format_str (fixed_in v)
                  else nl @ ''Not fixed yet'')"
  define r where "r = (case references v of
                    None \<Rightarrow> []
                  | Some refs \<Rightarrow>
                      if refs \<noteq> []
                      then nl @ ''References: '' @ concat (map reference_lines refs)
                      else [])"
  let ?alert = "t @ c @ f @ r"
  have res: "Vulnerability_get_alerts v = Inr [?alert]"
    using assms by (simp add: Vulnerability_get_alerts_def c_def f_def r_def)
  have f_nl: "\<exists>rest. f = nl @ rest" by (auto simp: f_def)
  have head: "prefix (t @ nl) ?alert"
  proof (cases "c = []")
    case True
    with f_nl show ?thesis by (auto simp: prefix_def)
  next
    case False
    then have "\<exists>rest. c = nl @ rest" by (auto simp: c_def split: if_splits)
    then show ?thesis by (auto simp: prefix_def)
  qed
  have score: "\<forall>score. cvss v = Some score \<and> score \<noteq> [] \<longrightarrow> str_in (nl @ ''CVSS: '' @ score) ?alert"
  proof (intro allI impI)
    fix score assume "cvss v = Some score \<and> score \<noteq> []"
    then have "c = nl @ ''CVSS: '' @ score" by (simp add: c_def truthy_str_def format_str_def)
    then have "?alert = t @ (nl @ ''CVSS: '' @ score) @ (f @ r)" by simp
    then show "str_in (nl @ ''CVSS: '' @ score) ?alert"
      by (metis str_in_middle)
  qed
  have fixed: "\<forall>release. fixed_in v = Some release \<and> release \<noteq> [] \<longrightarrow> str_in (nl @ ''Fixed in: '' @ release) ?alert"
  proof (intro allI impI)
    fix release assume "fixed_in v = Some release \<and> release \<noteq> []"
    then have "f = nl @ ''Fixed in: '' @ release" by (simp add: f_def truthy_str_def format_str_def)
    then have "?alert = (t @ c) @ (nl @ ''Fixed in: '' @ release) @ r" by simp
    then show "str_in (nl @ ''Fixed in: '' @ release) ?alert"
      by (metis str_in_middle)
  qed
  have unfixed: "fixed_in v = None \<or> fixed_in v = Some [] \<longrightarrow> str_in (nl @ ''Not fixed yet'') ?alert"
  proof
    assume "fixed_in v = None \<or> fixed_in v = Some []"
    then have "f = nl @ ''Not fixed yet''" by (auto simp: f_def truthy_str_def)
    then have "?alert = (t @ c) @ (nl @ ''Not fixed yet'') @ r" by simp
    then show "str_in (nl @ ''Not fixed yet'') ?alert"
      by (metis str_in_middle)
  qed
  have same: "\<And>refs. map reference_lines refs = map (\<lambda>(ref, links).
                        concat (map (\<lambda>link. nl @ ''- '' @ reference_label ref @ link) links)) refs"
    by (simp add: reference_lines_def fun_eq_iff split: prod.splits)
  have refs: "\<forall>refs. references v = Some refs \<and> refs \<noteq> [] \<longrightarrow>
            suffix (nl @ ''References: ''
                    @ concat (map (\<lambda>(ref, links).
                        concat (map (\<lambda>link. nl @ ''- '' @ reference_label ref @ link) links)) refs))
              ?alert"
  proof (intro allI impI)
    fix refs assume "references v = Some refs \<and> refs \<noteq> []"
    then have "r = nl @ ''References: '' @ concat (map reference_lines refs)" by (simp add: r_def)
    then have "?alert = (t @ c @ f) @ (nl @ ''References: ''
                    @ concat (map (\<lambda>(ref, links).
                        concat (map (\<lambda>link. nl @ ''- '' @ reference_label ref @ link) links)) refs))"
      by (simp add: same)
    then show "suffix (nl @ ''References: ''
                    @ concat (map (\<lambda>(ref, links).
                        concat (map (\<lambda>link. nl @ ''- '' @ reference_label ref @ link) links)) refs))
              ?alert"
      unfolding suffix_def by blast
  qed
  have cve: "references v = Some [(''cve'', [''2020-1234''])] \<longrightarrow>
            str_in (nl @ ''- CVE: http://cve.mitre.org/cgi-bin/cvename.cgi?name=CVE-2020-1234'') ?alert"
  proof
    assume "references v = Some [(''cve'', [''2020-1234''])]"
    then have "r = (nl @ ''References: '') @ (nl @ ''- CVE: http://cve.mitre.org/cgi-bin/cvename.cgi?name=CVE-2020-1234'') @ []"
      by (simp add: r_def reference_lines_def reference_label_def)
    then have "?alert = (t @ c @ f @ nl @ ''References: '') @ (nl @ ''- CVE: http://cve.mitre.org/cgi-bin/cvename.cgi?name=CVE-2020-1234'') @ []"
      by simp
    then show "str_in (nl @ ''- CVE: http://cve.mitre.org/cgi-bin/cvename.cgi?name=CVE-2020-1234'') ?alert"
      by (metis str_in_middle)
  qed
  from res head score fixed unfixed refs cve show ?thesis by blast
qed

lemma vulnerability_with_title_layout_example:
  "title \<lparr> title = Some ''Stored XSS'', cvss = Some ''7.5'', fixed_in = Some ''1.1'',
            references = Some [(''cve'', [''2020-1234''])] \<rparr> = Some ''Stored XSS''
   \<and> (\<exists>alert.
         Vulnerability_get_alerts
           \<lparr> title = Some ''Stored XSS'', cvss = Some ''7.5'', fixed_in = Some ''1.1'',
             references = Some [(''cve'', [''2020-1234''])] \<rparr> = Inr [alert]
         \<and> prefix (''Stored XSS'' @ nl) alert
         \<and> str_in (nl @ ''CVSS: 7.5'') alert
         \<and> str_in (nl @ ''Fixed in: 1.1'') alert
         \<and> str_in (nl @ ''- CVE: http://cve.mitre.org/cgi-bin/cvename.cgi?name=CVE-2020-1234'') alert)"
proof -
  let ?v = "\<lparr> title = Some ''Stored XSS'', cvss = Some ''7.5'', fixed_in = Some ''1.1'',
             references = Some [(''cve'', [''2020-1234''])] \<rparr>"
  have h: "title ?v = Some ''Stored XSS''" by simp
  from vulnerability_with_title_layout [OF h] obtain alert where
    "Vulnerability_get_alerts ?v = Inr [alert]"
    "prefix (''Stored XSS'' @ nl) alert"
    "str_in (nl @ ''CVSS: '' @ ''7.5'') alert"
    "str_in (nl @ ''Fixed in: '' @ ''1.1'') alert"
    "str_in (nl @ ''- CVE: http://cve.mitre.org/cgi-bin/cvename.cgi?name=CVE-2020-1234'') alert"
    by auto
  with h show ?thesis by auto
qed

text \<open>
  The attribute \<^verbatim>\<open>version\<close> of an item is an object and therefore true. So
  \<^verbatim>\<open>WPItem.get_alerts\<close> always returns the vulnerabilities of the slug and of the
  version, \<^verbatim>\<open>WPItem.get_warnings\<close> never reaches the branch that adds the notice and
  the vulnerabilities, and an item has at most one warning.
\<close>

lemma WPItem_get_alerts_always:
  "WPItem_get_alerts self =
     bind_result (Finding_get_alerts self) (\<lambda>own.
     bind_result (WPItemVersion_get_alerts (version self)) (\<lambda>of_version.
       Inr (own @ of_version)))"
  by (simp add: WPItem_get_alerts_def object_truthy_def)

lemma WPItem_get_warnings_never_demotes:
  "WPItem_get_warnings self = WPItem__get_warnings self"
  by (cases "WPItem__get_warnings self")
     (simp_all add: WPItem_get_warnings_def object_truthy_def)

lemma WPItem__get_warnings_at_most_one:
  "WPItem__get_warnings self = Inr ws \<Longrightarrow> length ws \<le> 1"
  by (auto simp: WPItem__get_warnings_def Let_def split: if_splits option.splits)

text \<open>
  The notice of \<^verbatim>\<open>WPItem.get_warnings\<close> reads \<^verbatim>\<open>The plugin or theme version could
  not be determined\<close>; the phrase \<^verbatim>\<open>The version could not be determined\<close> that
  \<^verbatim>\<open>WPScanJsonParser.get_warnings\<close> looks for does not occur in it.
\<close>

lemma version_notice_not_matched:
  "\<not> str_in version_undetermined (version_notice (Some ''akismet''))"
  by code_simp

text \<open>
  Claim C1: for an item built from a finding whose \<^verbatim>\<open>version\<close> entry is absent and
  whose list of vulnerabilities is not empty, \<^verbatim>\<open>get_alerts\<close> returns no alert and
  \<^verbatim>\<open>get_warnings\<close> holds the vulnerabilities and the version-undetermined notice.
  On the plugin finding \<open>outdated_vulnerable_dict\<close> the initializer raises
  \<^verbatim>\<open>TypeError\<close> at its call of the base initializer. On the object with the attributes
  the initializer assigns, \<^verbatim>\<open>WPItem.get_alerts\<close> returns the vulnerability as an
  alert, and \<^verbatim>\<open>WPItem.get_warnings\<close> returns the out-of-date warning alone, with
  neither the notice nor the vulnerability. The methods of \<^verbatim>\<open>Plugin\<close> that wrap these
  two lists raise \<^verbatim>\<open>TypeError\<close>, both lists being non-empty.
\<close>

theorem unresolved_version_still_alerts:
  "WPItem_init (Some outdated_vulnerable_dict) = Inl TypeError
   \<and> WPItem_get_alerts outdated_vulnerable_item = Inr [''akismet 1.0 - Stored XSS'' @ nl @ ''Fixed in: 1.1'']
   \<and> WPItem_get_warnings outdated_vulnerable_item
       = Inr [''akismet'' @ nl @ ''The version is out of date, the latest version is 2.0'']
   \<and> Plugin_get_warnings outdated_vulnerable_item = Inl TypeError
   \<and> Plugin_get_alerts outdated_vulnerable_item = Inl TypeError"
  by code_simp

text \<open>
  Claim C10 as stated: for every Plugin, Theme, MainTheme or Timthumb finding with no
  warning, \<^verbatim>\<open>get_warnings\<close> returns \<^verbatim>\<open>None\<close>, not an empty list.
  \<^verbatim>\<open>Timthumb.get_warnings\<close> returns the empty list.
\<close>

theorem timthumb_warnings_are_an_empty_list_counterexample:
  "Timthumb_get_warnings quiet_timthumb = Inr (Some [])
   \<and> Timthumb_get_warnings quiet_timthumb \<noteq> Inr None"
  by (simp add: Timthumb_get_warnings_def)

text \<open>
  Claim C10, amended: for every Plugin, Theme or MainTheme finding whose underlying item
  yields no warning (respectively no alert) strings, \<^verbatim>\<open>get_warnings\<close> (respectively
  \<^verbatim>\<open>get_alerts\<close>) returns \<^verbatim>\<open>None\<close> and not an empty list; for every Timthumb
  finding whose own vulnerabilities yield no alert strings, \<^verbatim>\<open>get_alerts\<close> returns
  \<^verbatim>\<open>None\<close>; \<^verbatim>\<open>Timthumb.get_warnings\<close> returns the empty list.
\<close>

theorem wrappers_return_None_when_empty:
  "(WPItem_get_warnings p = Inr [] \<longrightarrow> Plugin_get_warnings p = Inr None)
   \<and> (WPItem_get_alerts p = Inr [] \<longrightarrow> Plugin_get_alerts p = Inr None)
   \<and> (WPItem_get_warnings (attributes t) = Inr [] \<longrightarrow>
        Theme_get_warnings t = Inr None \<and> MainTheme_get_warnings t = Inr None)
   \<and> (WPItem_get_alerts (attributes t) = Inr [] \<longrightarrow>
        Theme_get_alerts t = Inr None \<and> MainTheme_get_alerts t = Inr None)
   \<and> (Finding_get_alerts tt = Inr [] \<longrightarrow> Timthumb_get_alerts tt = Inr None)
   \<and> Timthumb_get_warnings tt = Inr (Some [])"
  by (simp add: Plugin_get_warnings_def Plugin_get_alerts_def Theme_get_warnings_def
        Theme_get_alerts_def MainTheme_get_warnings_def MainTheme_get_alerts_def
        Timthumb_get_alerts_def Timthumb_get_warnings_def truthy_list_def)

theorem wrappers_return_None_when_empty_witness:
  "WPItem_get_warnings quiet_item = Inr [] \<and> Plugin_get_warnings quiet_item = Inr None
   \<and> WPItem_get_alerts quiet_item = Inr [] \<and> Plugin_get_alerts quiet_item = Inr None
   \<and> WPItem_get_warnings (attributes quiet_theme) = Inr []
   \<and> Theme_get_warnings quiet_theme = Inr None \<and> MainTheme_get_warnings quiet_theme = Inr None
   \<and> WPItem_get_alerts (attributes quiet_theme) = Inr []
   \<and> Theme_get_alerts quiet_theme = Inr None \<and> MainTheme_get_alerts quiet_theme = Inr None
   \<and> Finding_get_alerts quiet_timthumb = Inr [] \<and> Timthumb_get_alerts quiet_timthumb = Inr None
   \<and> Timthumb_get_warnings quiet_timthumb = Inr (Some [])"
proof -
  have a: "WPItem_get_warnings quiet_item = Inr []" by code_simp
  have b: "WPItem_get_alerts quiet_item = Inr []" by code_simp
  have c: "WPItem_get_warnings (attributes quiet_theme) = Inr []" by code_simp
  have d: "WPItem_get_alerts (attributes quiet_theme) = Inr []" by code_simp
  have e: "Finding_get_alerts quiet_timthumb = Inr []" by code_simp
  from a b c d e wrappers_return_None_when_empty [of quiet_item quiet_theme quiet_timthumb]
  show ?thesis by simp
qed

end
